theory Spec2Isabelle
  imports Complex_Main "HOL-Library.Multiset" "HOL-Library.Option_ord"
begin

text \<open>
  The admin panel of the readers application: the three model classes of \<open>models.py\<close> and
  the three admin classes of \<open>admin.py\<close>, whose \<open>save_model\<close> methods sync a saved record
  with the payment provider and with the application backend. Saves are functions on an
  explicit world (tables, printed lines, the trace of calls); the external services are
  parameters; exceptions are values.
\<close>

section \<open>Values of the host language\<close>

text \<open>
  A Python \<open>Decimal\<close> is kept by its value: \<open>Decimal c s\<close> stands for \<open>c / 10 ^ s\<close>, the
  unscaled integer \<open>c\<close> with \<open>s\<close> decimal places.
\<close>

datatype decimal = Decimal (unscaled: int) (scale: nat)

definition dec_value :: "decimal \<Rightarrow> rat" where
  "dec_value d = of_int (unscaled d) / 10 ^ scale d"

text \<open>
  Arithmetic on decimals rounds its result to the precision of the context, 28 significant
  digits by default, with the rounding mode \<open>ROUND_HALF_EVEN\<close>: a coefficient of more than
  28 digits loses its last digits, and the exponent grows by as many.
\<close>

fun num_digits :: "nat \<Rightarrow> nat" where
  "num_digits n = (if n < 10 then 1 else Suc (num_digits (n div 10)))"

declare num_digits.simps [simp del]

definition round_half_even :: "nat \<Rightarrow> nat \<Rightarrow> nat" where
  "round_half_even a q =
     (if 2 * (a mod q) < q then a div q
      else if q < 2 * (a mod q) then a div q + 1
      else if even (a div q) then a div q
      else a div q + 1)"

definition context_round :: "decimal \<Rightarrow> decimal" where
  "context_round d =
     (let a = nat \<bar>unscaled d\<bar>
      in if a < 10 ^ 28 then d
         else
           (let k = num_digits a - 28;
                q = int (round_half_even a (10 ^ k));
                c = (if unscaled d < 0 then - q else q)
            in if k \<le> scale d then Decimal c (scale d - k)
               else Decimal (c * 10 ^ (k - scale d)) 0))"

text \<open>\<open>d * n\<close> for a Decimal \<open>d\<close> and a Python int \<open>n\<close>.\<close>

definition dec_mul_int :: "decimal \<Rightarrow> int \<Rightarrow> decimal" where
  "dec_mul_int d n = context_round (Decimal (unscaled d * n) (scale d))"

text \<open>\<open>int(d)\<close> drops the fractional digits: it truncates towards zero.\<close>

definition dec_to_int :: "decimal \<Rightarrow> int" where
  "dec_to_int d =
     (if 0 \<le> unscaled d then unscaled d div 10 ^ scale d
      else - ((- unscaled d) div 10 ^ scale d))"

text \<open>
  What the validators of \<open>DecimalField(max_digits=md, decimal_places=dp)\<close> accept: at most
  \<open>dp\<close> decimal places and at most \<open>md - dp\<close> digits before the point.
\<close>

definition decimal_field_ok :: "nat \<Rightarrow> nat \<Rightarrow> decimal \<Rightarrow> bool" where
  "decimal_field_ok md dp d \<longleftrightarrow>
     scale d \<le> dp \<and> \<bar>unscaled d\<bar> < 10 ^ (md - dp + scale d)"

text \<open>
  \<open>float(d)\<close> is the binary64 number nearest to \<open>d\<close>. No property below depends on its
  bits, so the coercion stays symbolic: \<open>Float_of d\<close> is the float made from \<open>d\<close>.
\<close>

datatype py_float = Float_of decimal

datatype json =
    JNull
  | JBool bool
  | JInt int
  | JFloat py_float
  | JStr string
  | JList "json list"
  | JDict "(string \<times> json) list"

text \<open>
  Exceptions are instances of Python's \<open>Exception\<close>, the class both hooks catch; each
  carries the text that \<open>str(e)\<close> prints.
\<close>

datatype exn =
    IntegrityError string
  | StripeError string
  | ConnectionError string
  | Timeout string
  | OtherException string

fun str_exn :: "exn \<Rightarrow> string" where
  "str_exn (IntegrityError m) = m"
| "str_exn (StripeError m) = m"
| "str_exn (ConnectionError m) = m"
| "str_exn (Timeout m) = m"
| "str_exn (OtherException m) = m"

type_synonym timestamp = nat

section \<open>Data model (models.py)\<close>

text \<open>
  One record per model class. \<open>pk\<close> is the primary key, \<open>None\<close> until the first insert.
  Field names shared by several classes carry the class as a prefix for the reader profile
  (\<open>rp_\<close>) and the virtual gift (\<open>gift_\<close>); the product keeps the plain names.
\<close>

record reader_profile =
  rp_pk :: "nat option"
  clerk_id :: string
  email :: string
  display_name :: string
  bio :: string
  profile_picture :: "string option"
  specialties :: json
  chat_rate :: decimal
  call_rate :: decimal
  video_rate :: decimal
  status :: string
  is_online :: bool
  rp_is_active :: bool
  total_earnings :: decimal
  pending_payout :: decimal
  stripe_account_id :: string
  average_rating :: decimal
  total_reviews :: int
  rp_created_at :: "timestamp option"
  rp_updated_at :: "timestamp option"

record product =
  pk :: "nat option"
  stripe_product_id :: string
  name :: string
  description :: string
  product_type :: string
  price :: decimal
  reader :: "nat option"
  inventory_count :: "int option"
  is_active :: bool
  images :: json
  metadata :: json
  created_at :: "timestamp option"
  updated_at :: "timestamp option"

record virtual_gift =
  gift_pk :: "nat option"
  gift_name :: string
  gift_description :: string
  gift_price :: decimal
  icon_url :: string
  animation_url :: string
  gift_is_active :: bool
  gift_created_at :: "timestamp option"

text \<open>The \<open>Meta.ordering\<close> of the three classes.\<close>

definition ReaderProfile_ordering :: "string list" where
  "ReaderProfile_ordering = [''-created_at'']"

definition Product_ordering :: "string list" where
  "Product_ordering = [''-created_at'']"

definition VirtualGift_ordering :: "string list" where
  "VirtualGift_ordering = [''price'']"

section \<open>Status badge (admin.py, ReaderProfileAdmin.status\_badge)\<close>

definition colors :: "string \<rightharpoonup> string" where
  "colors = map_of
     [(''online'', ''green''),
      (''offline'', ''gray''),
      (''busy'', ''orange'')]"

text \<open>\<open>colors.get(obj.status, 'gray')\<close>\<close>

definition status_badge_color :: "reader_profile \<Rightarrow> string" where
  "status_badge_color obj = (case colors (status obj) of Some c \<Rightarrow> c | None \<Rightarrow> ''gray'')"

text \<open>
  \<open>format_html\<close> escapes each argument (\<open>&\<close>, \<open><\<close>, \<open>>\<close> and the two quotes become
  entities) and substitutes it for the next \<open>{}\<close> of the template. \<open>str.upper\<close> is the
  host language's own and follows the Unicode case mapping; the badge takes it as the
  parameter \<open>str_upper\<close>. \<open>ascii_upper\<close> is what it does on ASCII text.
\<close>

fun escape_char :: "char \<Rightarrow> string" where
  "escape_char c =
     (if c = CHR ''&'' then ''&amp;''
      else if c = CHR ''<'' then ''&lt;''
      else if c = CHR ''>'' then ''&gt;''
      else if c = CHR 0x22 then ''&quot;''
      else if c = CHR 0x27 then ''&#x27;''
      else [c])"

definition escape :: "string \<Rightarrow> string" where
  "escape s = concat (map escape_char s)"

definition status_badge :: "(string \<Rightarrow> string) \<Rightarrow> reader_profile \<Rightarrow> string" where
  "status_badge str_upper obj =
     ''<span style='' @ [CHR 0x22] @ ''background-color: '' @ escape (status_badge_color obj)
     @ ''; color: white; padding: 3px 10px; border-radius: 3px;'' @ [CHR 0x22] @ ''>''
     @ escape (str_upper (status obj)) @ ''</span>''"

definition ascii_upper_char :: "char \<Rightarrow> char" where
  "ascii_upper_char c =
     (case map_of (zip ''abcdefghijklmnopqrstuvwxyz'' ''ABCDEFGHIJKLMNOPQRSTUVWXYZ'') c of
        Some u \<Rightarrow> u
      | None \<Rightarrow> c)"

definition ascii_upper :: "string \<Rightarrow> string" where
  "ascii_upper s = map ascii_upper_char s"

section \<open>The outside world\<close>

text \<open>
  Everything a save touches beyond the record: the two external services, the process
  environment and the clock. The services are arbitrary functions from a request to either
  an exception (\<open>Inl\<close>) or an answer (\<open>Inr\<close>): the identifier of the created resource for
  the payment provider, the status code of the response for the backend.
\<close>

record env =
  getenv :: "string \<rightharpoonup> string"
  stripe_Product_create :: "string option \<Rightarrow> string \<Rightarrow> string \<Rightarrow> exn + string"
  stripe_Price_create :: "string option \<Rightarrow> string \<Rightarrow> int \<Rightarrow> string \<Rightarrow> exn + string"
  requests_post :: "string \<Rightarrow> json \<Rightarrow> exn + int"
  now :: timestamp

text \<open>
  What happens during a save, in the order it happens: the calls that leave the process and
  the hand-over of a record to the framework's persistence step.
\<close>

datatype event =
    StripeProductCreate string string
  | StripePriceCreate string int string
  | RequestsPost string json
  | ProductSave product
  | ReaderSave reader_profile

record world =
  stdout :: "string list"
  trace :: "event list"
  products :: "product list"
  readers :: "reader_profile list"
  gifts :: "virtual_gift list"
  stripe_api_key :: "string option"

definition emit :: "event \<Rightarrow> world \<Rightarrow> world" where
  "emit e w = w\<lparr>trace := trace w @ [e]\<rparr>"

definition print :: "string \<Rightarrow> world \<Rightarrow> world" where
  "print line w = w\<lparr>stdout := stdout w @ [line]\<rparr>"

fun is_external :: "event \<Rightarrow> bool" where
  "is_external (StripeProductCreate _ _) = True"
| "is_external (StripePriceCreate _ _ _) = True"
| "is_external (RequestsPost _ _) = True"
| "is_external (ProductSave _) = False"
| "is_external (ReaderSave _) = False"

section \<open>Persistence (the framework's \<open>obj.save()\<close> under the declarations of models.py)\<close>

text \<open>
  \<open>super().save_model(request, obj, form, change)\<close> is the framework's \<open>obj.save()\<close>. A table
  is the list of its rows in insertion order. A save updates the row with the record's
  primary key when there is one and inserts otherwise; \<open>auto_now_add\<close> stamps \<open>created_at\<close>
  on insert and \<open>auto_now\<close> stamps \<open>updated_at\<close> on every save. A column declared
  \<open>unique=True\<close> admits no second row with the same value, and the save raises
  \<open>IntegrityError\<close> instead, named here after the column. \<open>stripe_product_id\<close> is
  declared \<open>CharField(max_length=255, unique=True, blank=True)\<close> without \<open>null=True\<close>: a
  product without an identifier stores the empty string, a value like any other to the
  constraint (on every database backend that keeps the empty string apart from NULL).
\<close>

text \<open>
  The timestamps are stamped on the record in memory before the statement is sent to the
  database, so they stay on the record also when the save is rejected.
\<close>

definition Product_pre_save :: "timestamp \<Rightarrow> product list \<Rightarrow> product \<Rightarrow> product" where
  "Product_pre_save t tbl obj =
     (if pk obj \<noteq> None \<and> pk obj \<in> set (map pk tbl)
      then obj\<lparr>updated_at := Some t\<rparr>
      else obj\<lparr>created_at := Some t, updated_at := Some t\<rparr>)"

definition ReaderProfile_pre_save ::
  "timestamp \<Rightarrow> reader_profile list \<Rightarrow> reader_profile \<Rightarrow> reader_profile" where
  "ReaderProfile_pre_save t tbl obj =
     (if rp_pk obj \<noteq> None \<and> rp_pk obj \<in> set (map rp_pk tbl)
      then obj\<lparr>rp_updated_at := Some t\<rparr>
      else obj\<lparr>rp_created_at := Some t, rp_updated_at := Some t\<rparr>)"

definition next_pk :: "nat option list \<Rightarrow> nat" where
  "next_pk ks = Suc (fold max (map (\<lambda>k. case k of None \<Rightarrow> 0 | Some n \<Rightarrow> n) ks) 0)"

definition Product_save :: "timestamp \<Rightarrow> product list \<Rightarrow> product \<Rightarrow> exn + (product list \<times> product)" where
  "Product_save t tbl obj =
     (let update = (pk obj \<noteq> None \<and> pk obj \<in> set (map pk tbl));
          others = filter (\<lambda>r. pk r \<noteq> pk obj \<or> pk obj = None) tbl
      in if stripe_product_id obj \<in> set (map stripe_product_id others)
         then Inl (IntegrityError ''stripe_product_id'')
         else if update then
           (let obj' = obj\<lparr>updated_at := Some t\<rparr>
            in Inr (map (\<lambda>r. if pk r = pk obj then obj' else r) tbl, obj'))
         else
           (let k = (case pk obj of None \<Rightarrow> next_pk (map pk tbl) | Some n \<Rightarrow> n);
                obj' = obj\<lparr>pk := Some k, created_at := Some t, updated_at := Some t\<rparr>
            in Inr (tbl @ [obj'], obj')))"

definition ReaderProfile_save ::
  "timestamp \<Rightarrow> reader_profile list \<Rightarrow> reader_profile \<Rightarrow> exn + (reader_profile list \<times> reader_profile)" where
  "ReaderProfile_save t tbl obj =
     (let update = (rp_pk obj \<noteq> None \<and> rp_pk obj \<in> set (map rp_pk tbl));
          others = filter (\<lambda>r. rp_pk r \<noteq> rp_pk obj \<or> rp_pk obj = None) tbl
      in if clerk_id obj \<in> set (map clerk_id others)
         then Inl (IntegrityError ''clerk_id'')
         else if email obj \<in> set (map email others)
         then Inl (IntegrityError ''email'')
         else if update then
           (let obj' = obj\<lparr>rp_updated_at := Some t\<rparr>
            in Inr (map (\<lambda>r. if rp_pk r = rp_pk obj then obj' else r) tbl, obj'))
         else
           (let k = (case rp_pk obj of None \<Rightarrow> next_pk (map rp_pk tbl) | Some n \<Rightarrow> n);
                obj' = obj\<lparr>rp_pk := Some k, rp_created_at := Some t, rp_updated_at := Some t\<rparr>
            in Inr (tbl @ [obj'], obj')))"

text \<open>
  \<open>ModelAdmin.save_model\<close>: hand the record to \<open>save()\<close>. The result is the world, the
  record as the caller sees it afterwards (stamped, also after a rejected save), and the
  exception that leaves the call, if any. The \<open>change\<close> flag is passed along and not read.
\<close>

definition super_save_model_Product ::
  "env \<Rightarrow> world \<Rightarrow> product \<Rightarrow> bool \<Rightarrow> world \<times> product \<times> exn option" where
  "super_save_model_Product e w obj change =
     (let w1 = emit (ProductSave obj) w
      in case Product_save (now e) (products w1) obj of
           Inl x \<Rightarrow> (w1, Product_pre_save (now e) (products w1) obj, Some x)
         | Inr (tbl, obj') \<Rightarrow> (w1\<lparr>products := tbl\<rparr>, obj', None))"

definition super_save_model_ReaderProfile ::
  "env \<Rightarrow> world \<Rightarrow> reader_profile \<Rightarrow> bool \<Rightarrow> world \<times> reader_profile \<times> exn option" where
  "super_save_model_ReaderProfile e w obj change =
     (let w1 = emit (ReaderSave obj) w
      in case ReaderProfile_save (now e) (readers w1) obj of
           Inl x \<Rightarrow> (w1, ReaderProfile_pre_save (now e) (readers w1) obj, Some x)
         | Inr (tbl, obj') \<Rightarrow> (w1\<lparr>readers := tbl\<rparr>, obj', None))"

section \<open>Payment-catalog sync (admin.py, ProductAdmin.save\_model)\<close>

text \<open>\<open>int(obj.price * 100)\<close>\<close>

definition unit_amount :: "decimal \<Rightarrow> int" where
  "unit_amount p = dec_to_int (dec_mul_int p 100)"

text \<open>
  The body of the \<open>try\<close> block, lines 113 to 127. \<open>not obj.stripe_product_id\<close> holds of the
  empty string. The third component is the exception that leaves the block, if any.
\<close>

definition stripe_sync_try :: "env \<Rightarrow> world \<Rightarrow> product \<Rightarrow> world \<times> product \<times> exn option" where
  "stripe_sync_try e w obj =
     (if stripe_product_id obj = [] then
        (let w1 = emit (StripeProductCreate (name obj) (description obj)) w
         in case stripe_Product_create e (stripe_api_key w1) (name obj) (description obj) of
              Inl x \<Rightarrow> (w1, obj, Some x)
            | Inr product_id \<Rightarrow>
                (let w2 = emit (StripePriceCreate product_id (unit_amount (price obj)) ''usd'') w1
                 in case stripe_Price_create e (stripe_api_key w2) product_id
                           (unit_amount (price obj)) ''usd'' of
                      Inl x \<Rightarrow> (w2, obj, Some x)
                    | Inr price_id \<Rightarrow> (w2, obj\<lparr>stripe_product_id := product_id\<rparr>, None)))
      else (w, obj, None))"

text \<open>The \<open>try\<close> statement with its handler \<open>except Exception as e: print(...)\<close>.\<close>

definition stripe_sync :: "env \<Rightarrow> world \<Rightarrow> product \<Rightarrow> world \<times> product" where
  "stripe_sync e w obj =
     (case stripe_sync_try e w obj of
        (w1, obj1, None) \<Rightarrow> (w1, obj1)
      | (w1, obj1, Some x) \<Rightarrow> (print (''Error syncing with Stripe: '' @ str_exn x) w1, obj1))"

definition ProductAdmin_save_model ::
  "env \<Rightarrow> world \<Rightarrow> product \<Rightarrow> bool \<Rightarrow> world \<times> product \<times> exn option" where
  "ProductAdmin_save_model e w obj change =
     (let w0 = w\<lparr>stripe_api_key := getenv e ''STRIPE_SECRET_KEY''\<rparr>;
          (w1, obj1) = stripe_sync e w0 obj
      in super_save_model_Product e w1 obj1 change)"

section \<open>Reader provisioning (admin.py, ReaderProfileAdmin.save\_model)\<close>

text \<open>The JSON body of the request, lines 62 to 71.\<close>

definition reader_json :: "reader_profile \<Rightarrow> json" where
  "reader_json obj = JDict
     [(''clerk_id'', JStr (clerk_id obj)),
      (''email'', JStr (email obj)),
      (''display_name'', JStr (display_name obj)),
      (''bio'', JStr (bio obj)),
      (''specialties'', specialties obj),
      (''chat_rate'', JFloat (Float_of (chat_rate obj))),
      (''call_rate'', JFloat (Float_of (call_rate obj))),
      (''video_rate'', JFloat (Float_of (video_rate obj)))]"

text \<open>\<open>os.getenv('BACKEND_API_URL', 'http://localhost:5000')\<close>\<close>

definition backend_url :: "env \<Rightarrow> string" where
  "backend_url e =
     (case getenv e ''BACKEND_API_URL'' of None \<Rightarrow> ''http://localhost:5000'' | Some u \<Rightarrow> u)"

text \<open>The body of the \<open>try\<close> block, lines 58 to 74.\<close>

definition backend_sync_try :: "env \<Rightarrow> world \<Rightarrow> reader_profile \<Rightarrow> bool \<Rightarrow> world \<times> exn option" where
  "backend_sync_try e w obj change =
     (if \<not> change then
        (let url = backend_url e @ ''/api/admin/readers'';
             w1 = emit (RequestsPost url (reader_json obj)) w
         in case requests_post e url (reader_json obj) of
              Inl x \<Rightarrow> (w1, Some x)
            | Inr status_code \<Rightarrow>
                if status_code = 201
                then (print (''Reader '' @ display_name obj @ '' synced with backend'') w1, None)
                else (w1, None))
      else (w, None))"

definition backend_sync :: "env \<Rightarrow> world \<Rightarrow> reader_profile \<Rightarrow> bool \<Rightarrow> world" where
  "backend_sync e w obj change =
     (case backend_sync_try e w obj change of
        (w1, None) \<Rightarrow> w1
      | (w1, Some x) \<Rightarrow> print (''Error syncing reader with backend: '' @ str_exn x) w1)"

text \<open>
  The persistence step comes first and is outside the \<open>try\<close>: an exception it raises leaves
  the method before the sync is reached.
\<close>

definition ReaderProfileAdmin_save_model ::
  "env \<Rightarrow> world \<Rightarrow> reader_profile \<Rightarrow> bool \<Rightarrow> world \<times> reader_profile \<times> exn option" where
  "ReaderProfileAdmin_save_model e w obj change =
     (case super_save_model_ReaderProfile e w obj change of
        (w1, obj1, Some x) \<Rightarrow> (w1, obj1, Some x)
      | (w1, obj1, None) \<Rightarrow> (backend_sync e w1 obj1 change, obj1, None))"

section \<open>Listings under \<open>Meta.ordering\<close>\<close>

text \<open>
  An entry of an ordering list names a column, descending when a minus sign precedes it.
  A listing sorts the rows of the table by the entries, the first entry being the most
  significant; the sort is stable. The columns are those with a numeric or time value,
  which is all the declared orderings use; an unknown name is the framework's
  \<open>FieldError\<close>.
\<close>

fun order_entry :: "string \<Rightarrow> bool \<times> string" where
  "order_entry [] = (False, [])"
| "order_entry (c # cs) = (if c = CHR ''-'' then (True, cs) else (False, c # cs))"

definition sort_rows :: "('a \<Rightarrow> 'k::linorder) \<Rightarrow> bool \<Rightarrow> 'a list \<Rightarrow> 'a list" where
  "sort_rows key descending rows =
     (if descending then rev (sort_key key (rev rows)) else sort_key key rows)"

fun order_by :: "(string \<rightharpoonup> ('a \<Rightarrow> rat option)) \<Rightarrow> string list \<Rightarrow> 'a list \<Rightarrow> exn + 'a list" where
  "order_by columns [] rows = Inr rows"
| "order_by columns (entry # entries) rows =
     (case columns (snd (order_entry entry)) of
        None \<Rightarrow> Inl (OtherException ''FieldError'')
      | Some key \<Rightarrow>
          (case order_by columns entries rows of
             Inl x \<Rightarrow> Inl x
           | Inr rest \<Rightarrow> Inr (sort_rows key (fst (order_entry entry)) rest)))"

definition timestamp_key :: "timestamp option \<Rightarrow> rat option" where
  "timestamp_key t = map_option of_nat t"

definition ReaderProfile_columns :: "string \<rightharpoonup> (reader_profile \<Rightarrow> rat option)" where
  "ReaderProfile_columns = map_of
     [(''created_at'', \<lambda>r. timestamp_key (rp_created_at r)),
      (''updated_at'', \<lambda>r. timestamp_key (rp_updated_at r)),
      (''chat_rate'', \<lambda>r. Some (dec_value (chat_rate r))),
      (''call_rate'', \<lambda>r. Some (dec_value (call_rate r))),
      (''video_rate'', \<lambda>r. Some (dec_value (video_rate r))),
      (''total_earnings'', \<lambda>r. Some (dec_value (total_earnings r))),
      (''pending_payout'', \<lambda>r. Some (dec_value (pending_payout r))),
      (''average_rating'', \<lambda>r. Some (dec_value (average_rating r))),
      (''total_reviews'', \<lambda>r. Some (of_int (total_reviews r)))]"

definition Product_columns :: "string \<rightharpoonup> (product \<Rightarrow> rat option)" where
  "Product_columns = map_of
     [(''created_at'', \<lambda>r. timestamp_key (created_at r)),
      (''updated_at'', \<lambda>r. timestamp_key (updated_at r)),
      (''price'', \<lambda>r. Some (dec_value (price r))),
      (''inventory_count'', \<lambda>r. map_option of_int (inventory_count r))]"

definition VirtualGift_columns :: "string \<rightharpoonup> (virtual_gift \<Rightarrow> rat option)" where
  "VirtualGift_columns = map_of
     [(''created_at'', \<lambda>r. timestamp_key (gift_created_at r)),
      (''price'', \<lambda>r. Some (dec_value (gift_price r)))]"

definition ReaderProfile_listing :: "world \<Rightarrow> exn + reader_profile list" where
  "ReaderProfile_listing w = order_by ReaderProfile_columns ReaderProfile_ordering (readers w)"

definition Product_listing :: "world \<Rightarrow> exn + product list" where
  "Product_listing w = order_by Product_columns Product_ordering (products w)"

definition VirtualGift_listing :: "world \<Rightarrow> exn + virtual_gift list" where
  "VirtualGift_listing w = order_by VirtualGift_columns VirtualGift_ordering (gifts w)"

section \<open>The administrator's edit form (admin.py, ProductAdmin)\<close>

text \<open>
  The change form carries the fields of the \<open>fieldsets\<close> that are not in
  \<open>readonly_fields = ['stripe_product_id', 'created_at', 'updated_at']\<close>; the framework copies
  them onto the record before it calls \<open>save_model\<close>.
\<close>

record product_form =
  form_name :: string
  form_description :: string
  form_product_type :: string
  form_price :: decimal
  form_reader :: "nat option"
  form_inventory_count :: "int option"
  form_is_active :: bool
  form_images :: json
  form_metadata :: json

definition construct_instance :: "product_form \<Rightarrow> product \<Rightarrow> product" where
  "construct_instance f obj =
     obj\<lparr>name := form_name f, description := form_description f,
         product_type := form_product_type f, price := form_price f,
         reader := form_reader f, inventory_count := form_inventory_count f,
         is_active := form_is_active f, images := form_images f,
         metadata := form_metadata f\<rparr>"

text \<open>
  A run of edits of one record: each step submits a form under its own environment and
  saves with \<open>change=True\<close>; the record is carried to the next step as the save left it.
\<close>

fun edit_all :: "(env \<times> product_form) list \<Rightarrow> world \<Rightarrow> product \<Rightarrow> world \<times> product" where
  "edit_all [] w obj = (w, obj)"
| "edit_all ((e, f) # steps) w obj =
     (case ProductAdmin_save_model e w (construct_instance f obj) True of
        (w', obj', r) \<Rightarrow> edit_all steps w' obj')"

section \<open>The specification's rounding\<close>

text \<open>
  The price rounded to the nearest whole cent, as the specification words the amount sent
  to the payment provider.
\<close>

definition nearest_cent :: "rat \<Rightarrow> rat" where
  "nearest_cent r = of_int (round (r * 100)) / 100"

section \<open>Sample data\<close>

definition empty_world :: world where
  "empty_world =
     \<lparr>stdout = [], trace = [], products = [], readers = [], gifts = [], stripe_api_key = None\<rparr>"

text \<open>An environment whose services answer every request the same way.\<close>

definition responding :: "exn + string \<Rightarrow> exn + string \<Rightarrow> exn + int \<Rightarrow> env" where
  "responding product_answer price_answer backend_answer =
     \<lparr>getenv = Map.empty,
      stripe_Product_create = (\<lambda>key n d. product_answer),
      stripe_Price_create = (\<lambda>key p a c. price_answer),
      requests_post = (\<lambda>url body. backend_answer),
      now = 1000\<rparr>"

definition candle :: product where
  "candle =
     \<lparr>pk = None, stripe_product_id = [], name = ''Candle'', description = ''Scented'',
      product_type = ''physical'', price = Decimal 999 2, reader = None,
      inventory_count = Some 5, is_active = True, images = JList [], metadata = JDict [],
      created_at = None, updated_at = None\<rparr>"

definition luna :: reader_profile where
  "luna =
     \<lparr>rp_pk = None, clerk_id = ''user_1'', email = ''luna@example.com'',
      display_name = ''Luna'', bio = [], profile_picture = None,
      specialties = JList [JStr ''tarot''], chat_rate = Decimal 299 2,
      call_rate = Decimal 399 2, video_rate = Decimal 499 2, status = ''offline'',
      is_online = False, rp_is_active = True, total_earnings = Decimal 0 2,
      pending_payout = Decimal 0 2, stripe_account_id = [], average_rating = Decimal 0 2,
      total_reviews = 0, rp_created_at = None, rp_updated_at = None\<rparr>"

definition stripe_down :: env where
  "stripe_down =
     responding (Inl (StripeError ''No API key provided''))
       (Inl (StripeError ''No API key provided'')) (Inr 201)"

definition price_down :: env where
  "price_down = responding (Inr ''prod_1'') (Inl (Timeout ''timed out'')) (Inr 201)"

definition lamp :: product where
  "lamp = candle\<lparr>name := ''Lamp''\<rparr>"

definition candle_form :: product_form where
  "candle_form =
     \<lparr>form_name = ''Candle'', form_description = ''Scented, large'',
      form_product_type = ''physical'', form_price = Decimal 1299 2, form_reader = None,
      form_inventory_count = Some 4, form_is_active = True, form_images = JList [],
      form_metadata = JDict []\<rparr>"

section \<open>Status badge: the colour mapping\<close>

lemma colors_online: "colors ''online'' = Some ''green''"
  by (simp add: colors_def)

lemma colors_offline: "colors ''offline'' = Some ''gray''"
  by (simp add: colors_def)

lemma colors_busy: "colors ''busy'' = Some ''orange''"
  by (simp add: colors_def)

lemma colors_other:
  "s \<noteq> ''online'' \<Longrightarrow> s \<noteq> ''offline'' \<Longrightarrow> s \<noteq> ''busy'' \<Longrightarrow> colors s = None"
  by (simp add: colors_def)

lemma status_badge_color_cases:
  "status_badge_color obj =
     (if status obj = ''online'' then ''green''
      else if status obj = ''busy'' then ''orange''
      else ''gray'')"
proof (cases "status obj = ''online'' \<or> status obj = ''offline'' \<or> status obj = ''busy''")
  case True
  then show ?thesis
    unfolding status_badge_color_def
    by (auto simp: colors_online colors_offline colors_busy)
next
  case False
  then have "colors (status obj) = None"
    by (simp add: colors_other)
  with False show ?thesis
    unfolding status_badge_color_def by simp
qed

lemma escape_plain:
  "escape ''green'' = ''green''" "escape ''gray'' = ''gray''" "escape ''orange'' = ''orange''"
  by (simp_all add: escape_def)

text \<open>
  Claim C9. The badge is a function of the profile's status alone: the colour it renders
  is green for \<open>online\<close>, gray for \<open>offline\<close>, orange for \<open>busy\<close>, and gray for every other
  value, and the rendered span carries exactly that colour as its background, followed by
  the escaped upper-case status. Being a HOL function of the record, the rendering reads
  nothing else and changes nothing.
\<close>

theorem status_badge_mapping:
  "status_badge_color obj =
     (if status obj = ''online'' then ''green''
      else if status obj = ''busy'' then ''orange''
      else ''gray'')
   \<and> status_badge str_upper obj =
     ''<span style='' @ [CHR 0x22] @ ''background-color: ''
     @ (if status obj = ''online'' then ''green''
        else if status obj = ''busy'' then ''orange''
        else ''gray'')
     @ ''; color: white; padding: 3px 10px; border-radius: 3px;'' @ [CHR 0x22] @ ''>''
     @ escape (str_upper (status obj)) @ ''</span>''"
  unfolding status_badge_def status_badge_color_cases [of obj]
  by (simp add: escape_plain)

lemma status_badge_online:
  "status_badge ascii_upper (luna\<lparr>status := ''online''\<rparr>) =
     ''<span style='' @ [CHR 0x22]
     @ ''background-color: green; color: white; padding: 3px 10px; border-radius: 3px;''
     @ [CHR 0x22] @ ''>ONLINE</span>''"
  by (simp add: status_badge_def status_badge_color_def colors_def escape_def
      ascii_upper_def ascii_upper_char_def)

section \<open>Amounts in minor currency units\<close>

lemma dec_to_int_multiple: "dec_to_int (Decimal (k * 10 ^ s) s) = k"
proof (cases "0 \<le> k * 10 ^ s")
  case True
  then show ?thesis by (simp add: dec_to_int_def)
next
  case False
  have "- (k * 10 ^ s) div 10 ^ s = (- k * 10 ^ s) div 10 ^ s"
    by simp
  also have "\<dots> = - k"
    by (rule nonzero_mult_div_cancel_right) simp
  finally show ?thesis
    using False by (simp add: dec_to_int_def)
qed

lemma hundred_split:
  fixes s :: nat
  assumes "s \<le> 2"
  shows "(100::'a::comm_semiring_1) = 10 ^ (2 - s) * 10 ^ s"
proof -
  have "(10::'a) ^ (2 - s) * 10 ^ s = 10 ^ (2 - s + s)"
    by (simp only: power_add)
  also have "\<dots> = 10 ^ 2"
    using assms by simp
  finally show ?thesis by simp
qed

text \<open>
  Two products beyond the precision: a tie goes to the even neighbour, and the sign is kept.
\<close>

lemma num_digits_samples:
  "num_digits 10000000000000000000000000005 = 29"
  "num_digits 12345678901234567890123456789012 = 32"
  by (simp_all add: num_digits.simps)

lemma context_round_samples:
  "context_round (Decimal 10000000000000000000000000005 0)
     = Decimal 10000000000000000000000000000 0"
  "context_round (Decimal (- 12345678901234567890123456789012) 5)
     = Decimal (- 1234567890123456789012345679) 1"
  by (simp_all add: context_round_def num_digits_samples round_half_even_def Let_def)

lemma context_round_exact:
  assumes "\<bar>unscaled d\<bar> < 10 ^ 28"
  shows "context_round d = d"
proof -
  from assms have "nat \<bar>unscaled d\<bar> < 10 ^ 28"
    by (simp add: nat_less_iff)
  then show ?thesis
    by (simp add: context_round_def)
qed

lemma price_field_coefficient:
  assumes "decimal_field_ok 10 2 p"
  shows "\<bar>unscaled p * 100\<bar> < 10 ^ 28"
proof -
  from assms have s: "scale p \<le> 2" and c: "\<bar>unscaled p\<bar> < 10 ^ (8 + scale p)"
    by (simp_all add: decimal_field_ok_def)
  have "(10::int) ^ (8 + scale p) \<le> 10 ^ 10"
    using s by (intro power_increasing) simp_all
  with c have "\<bar>unscaled p\<bar> < 10 ^ 10"
    by linarith
  then have "\<bar>unscaled p * 100\<bar> < 10 ^ 10 * 100"
    by (simp add: abs_mult)
  also have "\<dots> \<le> (10::int) ^ 28"
    by simp
  finally show ?thesis .
qed

lemma unit_amount_exact:
  assumes "decimal_field_ok 10 2 p"
  shows "unit_amount p = unscaled p * 10 ^ (2 - scale p)"
proof -
  from assms have s: "scale p \<le> 2"
    by (simp add: decimal_field_ok_def)
  have split: "unscaled p * 100 = (unscaled p * 10 ^ (2 - scale p)) * 10 ^ scale p"
    by (simp only: hundred_split [OF s] mult.assoc)
  have "dec_mul_int p 100 = Decimal (unscaled p * 100) (scale p)"
    unfolding dec_mul_int_def
    by (rule context_round_exact) (simp only: decimal.sel price_field_coefficient [OF assms])
  then have "dec_mul_int p 100 = Decimal ((unscaled p * 10 ^ (2 - scale p)) * 10 ^ scale p) (scale p)"
    by (simp only: split)
  then show ?thesis
    by (simp only: unit_amount_def dec_to_int_multiple)
qed

lemma dec_value_cents:
  assumes "scale p \<le> 2"
  shows "dec_value p * 100 = of_int (unscaled p * 10 ^ (2 - scale p))"
proof -
  have "dec_value p * 100 = of_int (unscaled p) / 10 ^ scale p * (10 ^ (2 - scale p) * 10 ^ scale p)"
    by (simp only: dec_value_def hundred_split [OF assms, where 'a = rat])
  also have "\<dots> = of_int (unscaled p) * 10 ^ (2 - scale p)"
    by simp
  finally show ?thesis by simp
qed

lemma unit_amount_nearest_cent:
  assumes "decimal_field_ok 10 2 p"
  shows "of_int (unit_amount p) = nearest_cent (dec_value p) * 100"
proof -
  from assms have s: "scale p \<le> 2" by (simp add: decimal_field_ok_def)
  have "nearest_cent (dec_value p) * 100 = of_int (round (dec_value p * 100))"
    by (simp add: nearest_cent_def)
  also have "\<dots> = of_int (round (of_int (unscaled p * 10 ^ (2 - scale p)) :: rat))"
    by (simp only: dec_value_cents [OF s])
  also have "\<dots> = of_int (unscaled p * 10 ^ (2 - scale p))"
    by (simp only: round_of_int)
  finally show ?thesis
    by (simp only: unit_amount_exact [OF assms])
qed

lemma unit_amount_999: "unit_amount (Decimal 999 2) = 999"
  by (simp add: unit_amount_def dec_to_int_def dec_mul_int_def context_round_def)

text \<open>
  Beyond the two decimal places of the field the conversion truncates: 9.999 would be sent
  as 999, not as the 1000 of the nearest cent.
\<close>

lemma unit_amount_truncates:
  "unit_amount (Decimal 9999 3) = 999" and "nearest_cent (dec_value (Decimal 9999 3)) * 100 = 1000"
proof -
  show "unit_amount (Decimal 9999 3) = 999"
    by (simp add: unit_amount_def dec_to_int_def dec_mul_int_def context_round_def)
  have "round (9999 / 10 :: rat) = 1000"
    by (rule round_unique) simp_all
  then show "nearest_cent (dec_value (Decimal 9999 3)) * 100 = 1000"
    by (simp add: nearest_cent_def dec_value_def)
qed

section \<open>Saving a product\<close>

lemma emit_simps [simp]:
  "stdout (emit ev w) = stdout w"
  "trace (emit ev w) = trace w @ [ev]"
  "products (emit ev w) = products w"
  "readers (emit ev w) = readers w"
  "gifts (emit ev w) = gifts w"
  "stripe_api_key (emit ev w) = stripe_api_key w"
  by (simp_all add: emit_def)

lemma print_simps [simp]:
  "stdout (print l w) = stdout w @ [l]"
  "trace (print l w) = trace w"
  "products (print l w) = products w"
  "readers (print l w) = readers w"
  "gifts (print l w) = gifts w"
  "stripe_api_key (print l w) = stripe_api_key w"
  by (simp_all add: print_def)

lemma Product_save_fields:
  assumes "Product_save t tbl obj = Inr (tbl', obj')"
  shows "obj' = obj\<lparr>pk := pk obj', created_at := created_at obj', updated_at := updated_at obj'\<rparr>"
  using assms
  by (auto simp: Product_save_def Let_def split: if_splits)

lemma Product_save_stored:
  assumes "Product_save t tbl obj = Inr (tbl', obj')"
  shows "obj' \<in> set tbl'"
proof (cases "pk obj \<noteq> None \<and> pk obj \<in> set (map pk tbl)")
  case True
  then obtain r where r: "r \<in> set tbl" "pk r = pk obj" by auto
  from assms True have "tbl' = map (\<lambda>r. if pk r = pk obj then obj' else r) tbl"
    by (auto simp: Product_save_def Let_def split: if_splits)
  with r show ?thesis by force
next
  case False
  with assms show ?thesis
    by (auto simp: Product_save_def Let_def split: if_splits)
qed

lemma Product_save_rejected:
  assumes "Product_save t tbl obj = Inl x"
  shows "\<exists>r \<in> set tbl. stripe_product_id r = stripe_product_id obj \<and> (pk r \<noteq> pk obj \<or> pk obj = None)"
  using assms
  by (auto simp: Product_save_def Let_def split: if_splits)

lemma Product_pre_save_fields:
  "Product_pre_save t tbl obj =
     obj\<lparr>pk := pk (Product_pre_save t tbl obj),
         created_at := created_at (Product_pre_save t tbl obj),
         updated_at := updated_at (Product_pre_save t tbl obj)\<rparr>"
  by (simp add: Product_pre_save_def)

lemma super_save_model_Product_result:
  assumes "super_save_model_Product e w obj change = (w', obj', r)"
  shows "stdout w' = stdout w"
    and "trace w' = trace w @ [ProductSave obj]"
    and "stripe_api_key w' = stripe_api_key w"
    and "obj' = obj\<lparr>pk := pk obj', created_at := created_at obj', updated_at := updated_at obj'\<rparr>"
    and "r = None \<Longrightarrow> obj' \<in> set (products w')"
    and "r = Some y \<Longrightarrow> Product_save (now e) (products w) obj = Inl y \<and> products w' = products w"
  using assms Product_save_fields [of "now e" "products w" obj]
    Product_save_stored [of "now e" "products w" obj]
    Product_pre_save_fields [of "now e" "products w" obj]
  by (auto simp: super_save_model_Product_def Let_def split: sum.splits prod.splits)

lemma Product_save_rejects_iff:
  "(\<exists>x. Product_save t tbl obj = Inl x) \<longleftrightarrow>
     stripe_product_id obj \<in>
       set (map stripe_product_id (filter (\<lambda>row. pk row \<noteq> pk obj \<or> pk obj = None) tbl))"
  by (simp add: Product_save_def Let_def)

lemma super_save_model_Product_accepts:
  assumes "super_save_model_Product e w obj change = (w', obj', r)"
  shows "r = None \<longleftrightarrow>
     stripe_product_id obj \<notin>
       set (map stripe_product_id
              (filter (\<lambda>row. pk row \<noteq> pk obj \<or> pk obj = None) (products w)))"
proof (cases "Product_save (now e) (products w) obj")
  case (Inl x)
  with assms have "r = Some x"
    by (simp add: super_save_model_Product_def Let_def)
  moreover from Inl have "\<exists>x. Product_save (now e) (products w) obj = Inl x"
    by blast
  ultimately show ?thesis
    by (simp only: Product_save_rejects_iff) simp
next
  case (Inr res)
  with assms have "r = None"
    by (simp add: super_save_model_Product_def Let_def split: prod.splits)
  moreover from Inr have "\<not> (\<exists>x. Product_save (now e) (products w) obj = Inl x)"
    by simp
  ultimately show ?thesis
    by (simp only: Product_save_rejects_iff) simp
qed

lemma stripe_sync_present:
  "stripe_product_id obj \<noteq> [] \<Longrightarrow> stripe_sync e w obj = (w, obj)"
  by (simp add: stripe_sync_def stripe_sync_try_def)

lemma stripe_sync_created:
  assumes "stripe_product_id obj = []"
    and "stripe_Product_create e (stripe_api_key w) (name obj) (description obj) = Inr product_id"
    and "stripe_Price_create e (stripe_api_key w) product_id (unit_amount (price obj)) ''usd'' = Inr price_id"
  shows "stripe_sync e w obj =
           (emit (StripePriceCreate product_id (unit_amount (price obj)) ''usd'')
              (emit (StripeProductCreate (name obj) (description obj)) w),
            obj\<lparr>stripe_product_id := product_id\<rparr>)"
  using assms by (simp add: stripe_sync_def stripe_sync_try_def)

lemma stripe_sync_price_raises:
  assumes "stripe_product_id obj = []"
    and "stripe_Product_create e (stripe_api_key w) (name obj) (description obj) = Inr product_id"
    and "stripe_Price_create e (stripe_api_key w) product_id (unit_amount (price obj)) ''usd'' = Inl x"
  shows "stripe_sync e w obj =
           (print (''Error syncing with Stripe: '' @ str_exn x)
              (emit (StripePriceCreate product_id (unit_amount (price obj)) ''usd'')
                 (emit (StripeProductCreate (name obj) (description obj)) w)),
            obj)"
  using assms by (simp add: stripe_sync_def stripe_sync_try_def)

lemma stripe_sync_try_raises:
  assumes "stripe_sync_try e w obj = (w1, obj1, Some x)"
  shows "obj1 = obj" and "stripe_product_id obj = []" and "stdout w1 = stdout w"
    and "products w1 = products w"
  using assms
  by (auto simp: stripe_sync_try_def Let_def split: if_splits sum.splits)

lemma save_model_unfold:
  "ProductAdmin_save_model e w obj change =
     super_save_model_Product e
       (fst (stripe_sync e (w\<lparr>stripe_api_key := getenv e ''STRIPE_SECRET_KEY''\<rparr>) obj))
       (snd (stripe_sync e (w\<lparr>stripe_api_key := getenv e ''STRIPE_SECRET_KEY''\<rparr>) obj)) change"
  by (simp add: ProductAdmin_save_model_def Let_def split: prod.splits)

lemma save_model_synced:
  assumes "stripe_product_id obj = []"
    and "stripe_Product_create e (getenv e ''STRIPE_SECRET_KEY'') (name obj) (description obj)
           = Inr product_id"
    and "stripe_Price_create e (getenv e ''STRIPE_SECRET_KEY'') product_id
           (unit_amount (price obj)) ''usd'' = Inr price_id"
    and "ProductAdmin_save_model e w obj change = (w', obj', r)"
  shows "trace w' = trace w @
           [StripeProductCreate (name obj) (description obj),
            StripePriceCreate product_id (unit_amount (price obj)) ''usd'',
            ProductSave (obj\<lparr>stripe_product_id := product_id\<rparr>)]
       \<and> stripe_product_id obj' = product_id
       \<and> obj' = obj\<lparr>stripe_product_id := product_id, pk := pk obj',
                     created_at := created_at obj', updated_at := updated_at obj'\<rparr>
       \<and> (r = None \<longrightarrow> obj' \<in> set (products w'))
       \<and> (r = None \<longleftrightarrow>
            product_id \<notin> set (map stripe_product_id
              (filter (\<lambda>row. pk row \<noteq> pk obj \<or> pk obj = None) (products w))))"
proof -
  let ?w0 = "w\<lparr>stripe_api_key := getenv e ''STRIPE_SECRET_KEY''\<rparr>"
  let ?w1 = "emit (StripePriceCreate product_id (unit_amount (price obj)) ''usd'')
               (emit (StripeProductCreate (name obj) (description obj)) ?w0)"
  let ?obj1 = "obj\<lparr>stripe_product_id := product_id\<rparr>"
  have sync: "stripe_sync e ?w0 obj = (?w1, ?obj1)"
    using assms(1-3) by (intro stripe_sync_created) simp_all
  have save: "super_save_model_Product e ?w1 ?obj1 change = (w', obj', r)"
    using assms(4) by (simp only: save_model_unfold sync fst_conv snd_conv)
  note res = super_save_model_Product_result [OF save]
  have "trace w' = trace ?w1 @ [ProductSave ?obj1]"
    by (rule res(2))
  then have t: "trace w' = trace w @
           [StripeProductCreate (name obj) (description obj),
            StripePriceCreate product_id (unit_amount (price obj)) ''usd'',
            ProductSave ?obj1]"
    by simp
  have f: "obj' = ?obj1\<lparr>pk := pk obj', created_at := created_at obj', updated_at := updated_at obj'\<rparr>"
    by (rule res(4))
  then have i: "stripe_product_id obj' = product_id"
    by (metis product.select_convs(2) product.surjective product.update_convs(1,2,12,13))
  have a: "r = None \<longleftrightarrow>
            product_id \<notin> set (map stripe_product_id
              (filter (\<lambda>row. pk row \<noteq> pk obj \<or> pk obj = None) (products w)))"
    using super_save_model_Product_accepts [OF save] by simp
  from t i f res(5) a show ?thesis by simp
qed

text \<open>
  When the sync raises (the \<open>try\<close> block is left by an exception \<open>x\<close> of either provider
  call), the failure is printed, the identifier stays empty, and the save goes on to the
  persistence step with the record as submitted: the whole save is that step applied to
  the unchanged record. The provider's exception never leaves the save; the persistence
  step's own does.
\<close>

lemma stripe_failure_reaches_persistence:
  assumes "stripe_sync_try e (w\<lparr>stripe_api_key := getenv e ''STRIPE_SECRET_KEY''\<rparr>) obj
             = (w1, obj1, Some x)"
    and "ProductAdmin_save_model e w obj change = (w', obj', r)"
  shows "stdout w' = stdout w @ [''Error syncing with Stripe: '' @ str_exn x]
       \<and> stripe_product_id obj = [] \<and> stripe_product_id obj' = []
       \<and> ProductAdmin_save_model e w obj change =
           super_save_model_Product e (print (''Error syncing with Stripe: '' @ str_exn x) w1) obj change
       \<and> obj' = obj\<lparr>pk := pk obj', created_at := created_at obj', updated_at := updated_at obj'\<rparr>
       \<and> (r = None \<longrightarrow> obj' \<in> set (products w'))
       \<and> (\<forall>y. r = Some y \<longrightarrow> Product_save (now e) (products w) obj = Inl y)"
proof -
  let ?w0 = "w\<lparr>stripe_api_key := getenv e ''STRIPE_SECRET_KEY''\<rparr>"
  let ?w2 = "print (''Error syncing with Stripe: '' @ str_exn x) w1"
  note raised = stripe_sync_try_raises [OF assms(1)]
  have sync: "stripe_sync e ?w0 obj = (?w2, obj)"
    using assms(1) raised(1) by (simp add: stripe_sync_def)
  have unfold: "ProductAdmin_save_model e w obj change = super_save_model_Product e ?w2 obj change"
    by (simp only: save_model_unfold sync fst_conv snd_conv)
  with assms(2) have save: "super_save_model_Product e ?w2 obj change = (w', obj', r)"
    by simp
  note res = super_save_model_Product_result [OF save]
  have out: "stdout w' = stdout w @ [''Error syncing with Stripe: '' @ str_exn x]"
    using res(1) raised(3) by simp
  have f: "obj' = obj\<lparr>pk := pk obj', created_at := created_at obj', updated_at := updated_at obj'\<rparr>"
    by (rule res(4))
  have "stripe_product_id obj' = stripe_product_id obj"
    by (subst f) simp
  with raised(2) have i: "stripe_product_id obj' = []"
    by simp
  have p: "\<forall>y. r = Some y \<longrightarrow> Product_save (now e) (products w) obj = Inl y"
    using res(6) raised(4) by simp
  from out raised(2) i unfold f res(5) p show ?thesis
    by blast
qed

text \<open>
  When the product is created and the price creation raises, the provider has been asked
  for both resources, the record reaches the persistence step unchanged with its identifier
  still empty, and the failure is printed.
\<close>

lemma orphan_product_reaches_persistence:
  assumes "stripe_product_id obj = []"
    and "stripe_Product_create e (getenv e ''STRIPE_SECRET_KEY'') (name obj) (description obj)
           = Inr product_id"
    and "stripe_Price_create e (getenv e ''STRIPE_SECRET_KEY'') product_id
           (unit_amount (price obj)) ''usd'' = Inl x"
    and "ProductAdmin_save_model e w obj change = (w', obj', r)"
  shows "trace w' = trace w @
           [StripeProductCreate (name obj) (description obj),
            StripePriceCreate product_id (unit_amount (price obj)) ''usd'',
            ProductSave obj]
       \<and> stripe_product_id obj' = []
       \<and> stdout w' = stdout w @ [''Error syncing with Stripe: '' @ str_exn x]
       \<and> (r = None \<longrightarrow> obj' \<in> set (products w'))
       \<and> (\<forall>y. r = Some y \<longrightarrow> Product_save (now e) (products w) obj = Inl y)"
proof -
  let ?w0 = "w\<lparr>stripe_api_key := getenv e ''STRIPE_SECRET_KEY''\<rparr>"
  let ?w1 = "print (''Error syncing with Stripe: '' @ str_exn x)
               (emit (StripePriceCreate product_id (unit_amount (price obj)) ''usd'')
                  (emit (StripeProductCreate (name obj) (description obj)) ?w0))"
  have sync: "stripe_sync e ?w0 obj = (?w1, obj)"
    using assms(1-3) by (intro stripe_sync_price_raises) simp_all
  have save: "super_save_model_Product e ?w1 obj change = (w', obj', r)"
    using assms(4) by (simp only: save_model_unfold sync fst_conv snd_conv)
  note res = super_save_model_Product_result [OF save]
  have t: "trace w' = trace w @
           [StripeProductCreate (name obj) (description obj),
            StripePriceCreate product_id (unit_amount (price obj)) ''usd'',
            ProductSave obj]"
    using res(2) by simp
  have out: "stdout w' = stdout w @ [''Error syncing with Stripe: '' @ str_exn x]"
    using res(1) by simp
  have "stripe_product_id obj' = stripe_product_id obj"
    by (subst res(4)) simp
  with assms(1) have i: "stripe_product_id obj' = []"
    by simp
  have p: "\<forall>y. r = Some y \<longrightarrow> Product_save (now e) (products w) obj = Inl y"
    using res(6) by simp
  from t i out res(5) p show ?thesis
    by blast
qed

lemma stripe_sync_try_price_event:
  assumes "stripe_product_id obj = []"
    and "stripe_Product_create e (stripe_api_key w) (name obj) (description obj) = Inr product_id"
  shows "trace (fst (stripe_sync e w obj)) = trace w @
           [StripeProductCreate (name obj) (description obj),
            StripePriceCreate product_id (unit_amount (price obj)) ''usd'']"
  using assms
  by (cases "stripe_Price_create e (stripe_api_key w) product_id (unit_amount (price obj)) ''usd''")
     (simp_all add: stripe_sync_price_raises stripe_sync_created)

lemma stripe_sync_product_raises:
  assumes "stripe_product_id obj = []"
    and "stripe_Product_create e (stripe_api_key w) (name obj) (description obj) = Inl x"
  shows "stripe_sync e w obj =
           (print (''Error syncing with Stripe: '' @ str_exn x)
              (emit (StripeProductCreate (name obj) (description obj)) w),
            obj)"
  using assms by (simp add: stripe_sync_def stripe_sync_try_def)

lemma stripe_sync_trace:
  assumes "stripe_product_id obj = []"
  shows "\<exists>calls. trace (fst (stripe_sync e w obj)) =
           trace w @ StripeProductCreate (name obj) (description obj) # calls
         \<and> list_all is_external calls"
proof (cases "stripe_Product_create e (stripe_api_key w) (name obj) (description obj)")
  case (Inl x)
  from stripe_sync_product_raises [OF assms Inl] show ?thesis
    by simp
next
  case (Inr product_id)
  from stripe_sync_try_price_event [OF assms Inr] show ?thesis
    by simp
qed

text \<open>
  Claim C1. A product saved without an external identifier is synced before it is
  persisted: the save first asks the payment provider to create a product from the record's
  name and description, makes nothing but external calls after that, and hands the record
  to the persistence step last. When both provider calls succeed, the save performs exactly
  these steps in this order: the product resource is created, the price resource is created
  for the new product, and only then the record is persisted, already carrying the new
  product's identifier. The record the caller holds afterwards has that identifier and
  otherwise the submitted fields. The save stores it, as a row of the table, exactly when
  the new identifier is not already the identifier of another row; for an identifier the
  provider has not issued before, the identifier is thus stored by the same save as the
  rest of the edit.
\<close>

theorem product_sync_before_persistence:
  assumes "stripe_product_id obj = []"
    and "ProductAdmin_save_model e w obj change = (w', obj', r)"
  shows "(\<exists>calls saved.
            trace w' = trace w @ StripeProductCreate (name obj) (description obj) # calls
                         @ [ProductSave saved]
            \<and> list_all is_external calls)
       \<and> (\<forall>product_id price_id.
            stripe_Product_create e (getenv e ''STRIPE_SECRET_KEY'') (name obj) (description obj)
              = Inr product_id \<longrightarrow>
            stripe_Price_create e (getenv e ''STRIPE_SECRET_KEY'') product_id
              (unit_amount (price obj)) ''usd'' = Inr price_id \<longrightarrow>
            trace w' = trace w @
              [StripeProductCreate (name obj) (description obj),
               StripePriceCreate product_id (unit_amount (price obj)) ''usd'',
               ProductSave (obj\<lparr>stripe_product_id := product_id\<rparr>)]
            \<and> stripe_product_id obj' = product_id
            \<and> obj' = obj\<lparr>stripe_product_id := product_id, pk := pk obj',
                          created_at := created_at obj', updated_at := updated_at obj'\<rparr>
            \<and> (r = None \<longleftrightarrow>
                 product_id \<notin> set (map stripe_product_id
                   (filter (\<lambda>row. pk row \<noteq> pk obj \<or> pk obj = None) (products w))))
            \<and> (product_id \<notin> set (map stripe_product_id
                   (filter (\<lambda>row. pk row \<noteq> pk obj \<or> pk obj = None) (products w)))
                 \<longrightarrow> r = None \<and> obj' \<in> set (products w')))"
proof (intro conjI allI impI)
  let ?w0 = "w\<lparr>stripe_api_key := getenv e ''STRIPE_SECRET_KEY''\<rparr>"
  obtain w1 obj1 where sync: "stripe_sync e ?w0 obj = (w1, obj1)"
    by (cases "stripe_sync e ?w0 obj")
  from stripe_sync_trace [OF assms(1), of e ?w0] sync obtain calls where
    calls: "trace w1 = trace w @ StripeProductCreate (name obj) (description obj) # calls"
      "list_all is_external calls"
    by auto
  have save: "super_save_model_Product e w1 obj1 change = (w', obj', r)"
    using assms(2) by (simp only: save_model_unfold sync fst_conv snd_conv)
  have "trace w' = trace w1 @ [ProductSave obj1]"
    by (rule super_save_model_Product_result(2) [OF save])
  with calls show "\<exists>calls saved.
            trace w' = trace w @ StripeProductCreate (name obj) (description obj) # calls
                         @ [ProductSave saved]
            \<and> list_all is_external calls"
    by auto
next
  fix product_id price_id
  assume created: "stripe_Product_create e (getenv e ''STRIPE_SECRET_KEY'') (name obj) (description obj)
              = Inr product_id"
    "stripe_Price_create e (getenv e ''STRIPE_SECRET_KEY'') product_id
              (unit_amount (price obj)) ''usd'' = Inr price_id"
  note synced = save_model_synced [OF assms(1) created assms(2)]
  from synced show "trace w' = trace w @
              [StripeProductCreate (name obj) (description obj),
               StripePriceCreate product_id (unit_amount (price obj)) ''usd'',
               ProductSave (obj\<lparr>stripe_product_id := product_id\<rparr>)]"
    by (rule conjunct1)
  from synced show "stripe_product_id obj' = product_id"
    by blast
  from synced show "obj' = obj\<lparr>stripe_product_id := product_id, pk := pk obj',
                          created_at := created_at obj', updated_at := updated_at obj'\<rparr>"
    by blast
  from synced show "r = None \<longleftrightarrow>
                 product_id \<notin> set (map stripe_product_id
                   (filter (\<lambda>row. pk row \<noteq> pk obj \<or> pk obj = None) (products w)))"
    by blast
  assume fresh: "product_id \<notin> set (map stripe_product_id
                   (filter (\<lambda>row. pk row \<noteq> pk obj \<or> pk obj = None) (products w)))"
  from synced fresh show "r = None"
    by blast
  from synced fresh show "obj' \<in> set (products w')"
    by blast
qed

theorem product_sync_before_persistence_witness:
  "trace (fst (ProductAdmin_save_model
       (responding (Inr ''prod_1'') (Inr ''price_1'') (Inr 201)) empty_world candle False)) =
     [StripeProductCreate ''Candle'' ''Scented'',
      StripePriceCreate ''prod_1'' 999 ''usd'',
      ProductSave (candle\<lparr>stripe_product_id := ''prod_1''\<rparr>)]
   \<and> stripe_product_id (fst (snd (ProductAdmin_save_model
       (responding (Inr ''prod_1'') (Inr ''price_1'') (Inr 201)) empty_world candle False))) = ''prod_1''
   \<and> snd (snd (ProductAdmin_save_model
       (responding (Inr ''prod_1'') (Inr ''price_1'') (Inr 201)) empty_world candle False)) = None
   \<and> fst (snd (ProductAdmin_save_model
       (responding (Inr ''prod_1'') (Inr ''price_1'') (Inr 201)) empty_world candle False))
      \<in> set (products (fst (ProductAdmin_save_model
       (responding (Inr ''prod_1'') (Inr ''price_1'') (Inr 201)) empty_world candle False)))
   \<and> products (fst (ProductAdmin_save_model
       (responding (Inr ''prod_1'') (Inr ''price_1'') (Inr 201)) empty_world candle False)) =
     [candle\<lparr>stripe_product_id := ''prod_1'', pk := Some 1, created_at := Some 1000,
             updated_at := Some 1000\<rparr>]"
proof -
  let ?e = "responding (Inr ''prod_1'') (Inr ''price_1'') (Inr 201)"
  have h1: "stripe_product_id candle = []"
    by (simp add: candle_def)
  have h2: "stripe_Product_create ?e (getenv ?e ''STRIPE_SECRET_KEY'') (name candle) (description candle)
              = Inr ''prod_1''"
    by (simp add: responding_def)
  have h3: "stripe_Price_create ?e (getenv ?e ''STRIPE_SECRET_KEY'') ''prod_1''
              (unit_amount (price candle)) ''usd'' = Inr ''price_1''"
    by (simp add: responding_def)
  have h4: "ProductAdmin_save_model ?e empty_world candle False =
              (fst (ProductAdmin_save_model ?e empty_world candle False),
               fst (snd (ProductAdmin_save_model ?e empty_world candle False)),
               snd (snd (ProductAdmin_save_model ?e empty_world candle False)))"
    by simp
  have h5: "''prod_1'' \<notin> set (map stripe_product_id
              (filter (\<lambda>row. pk row \<noteq> pk candle \<or> pk candle = None) (products empty_world)))"
    by (simp add: empty_world_def)
  have p: "price candle = Decimal 999 2" "name candle = ''Candle''" "description candle = ''Scented''"
    by (simp_all add: candle_def)
  have t: "trace empty_world = []"
    by (simp add: empty_world_def)
  have stored: "products (fst (ProductAdmin_save_model ?e empty_world candle False)) =
     [candle\<lparr>stripe_product_id := ''prod_1'', pk := Some 1, created_at := Some 1000,
             updated_at := Some 1000\<rparr>]"
    by (simp add: ProductAdmin_save_model_def stripe_sync_def stripe_sync_try_def
        super_save_model_Product_def Product_save_def next_pk_def responding_def
        empty_world_def candle_def emit_def print_def Let_def)
  note synced = product_sync_before_persistence [OF h1 h4, THEN conjunct2, rule_format, OF h2 h3]
  have a: "trace (fst (ProductAdmin_save_model ?e empty_world candle False)) =
     [StripeProductCreate ''Candle'' ''Scented'',
      StripePriceCreate ''prod_1'' 999 ''usd'',
      ProductSave (candle\<lparr>stripe_product_id := ''prod_1''\<rparr>)]"
    using synced [THEN conjunct1] by (simp add: p t unit_amount_999)
  have b: "stripe_product_id (fst (snd (ProductAdmin_save_model ?e empty_world candle False))) = ''prod_1''"
    using synced [THEN conjunct2, THEN conjunct1] by simp
  have c: "snd (snd (ProductAdmin_save_model ?e empty_world candle False)) = None
      \<and> fst (snd (ProductAdmin_save_model ?e empty_world candle False))
          \<in> set (products (fst (ProductAdmin_save_model ?e empty_world candle False)))"
    using synced [THEN conjunct2, THEN conjunct2, THEN conjunct2, THEN conjunct2] h5
    by (rule mp)
  from a b c stored show ?thesis
    by (simp only: simp_thms)
qed

text \<open>
  Claim C5. For every product price, that is, every value the validators of the field
  \<open>price = DecimalField(max_digits=10, decimal_places=2)\<close> accept, the amount sent with
  the price creation, \<open>int(obj.price * 100)\<close>, is the price rounded to the nearest whole
  cent times 100, and the currency sent is \<open>usd\<close>. The price creation is the second call
  of a save whose product creation succeeded. At 9.99 the amount is 999.
\<close>

theorem price_sent_in_cents:
  assumes "decimal_field_ok 10 2 (price obj)"
    and "stripe_product_id obj = []"
    and "stripe_Product_create e (getenv e ''STRIPE_SECRET_KEY'') (name obj) (description obj)
           = Inr product_id"
    and "ProductAdmin_save_model e w obj change = (w', obj', r)"
  shows "of_int (unit_amount (price obj)) = nearest_cent (dec_value (price obj)) * 100
       \<and> take 2 (drop (length (trace w)) (trace w')) =
           [StripeProductCreate (name obj) (description obj),
            StripePriceCreate product_id (unit_amount (price obj)) ''usd'']"
proof -
  let ?w0 = "w\<lparr>stripe_api_key := getenv e ''STRIPE_SECRET_KEY''\<rparr>"
  obtain w1 obj1 where sync: "stripe_sync e ?w0 obj = (w1, obj1)"
    by (cases "stripe_sync e ?w0 obj")
  have "trace (fst (stripe_sync e ?w0 obj)) = trace ?w0 @
           [StripeProductCreate (name obj) (description obj),
            StripePriceCreate product_id (unit_amount (price obj)) ''usd'']"
    using assms(2,3) by (intro stripe_sync_try_price_event) simp_all
  with sync have t1: "trace w1 = trace w @
           [StripeProductCreate (name obj) (description obj),
            StripePriceCreate product_id (unit_amount (price obj)) ''usd'']"
    by simp
  have save: "super_save_model_Product e w1 obj1 change = (w', obj', r)"
    using assms(4) by (simp only: save_model_unfold sync fst_conv snd_conv)
  have "trace w' = trace w1 @ [ProductSave obj1]"
    by (rule super_save_model_Product_result(2) [OF save])
  with t1 have "take 2 (drop (length (trace w)) (trace w')) =
           [StripeProductCreate (name obj) (description obj),
            StripePriceCreate product_id (unit_amount (price obj)) ''usd'']"
    by simp
  with unit_amount_nearest_cent [OF assms(1)] show ?thesis
    by simp
qed

theorem price_sent_in_cents_witness:
  "nearest_cent (dec_value (Decimal 999 2)) * 100 = 999
   \<and> take 2 (trace (fst (ProductAdmin_save_model
         (responding (Inr ''prod_1'') (Inr ''price_1'') (Inr 201)) empty_world candle False))) =
       [StripeProductCreate ''Candle'' ''Scented'', StripePriceCreate ''prod_1'' 999 ''usd'']"
proof -
  let ?e = "responding (Inr ''prod_1'') (Inr ''price_1'') (Inr 201)"
  have h1: "decimal_field_ok 10 2 (price candle)"
    by (simp add: candle_def decimal_field_ok_def)
  have h2: "stripe_product_id candle = []"
    by (simp add: candle_def)
  have h3: "stripe_Product_create ?e (getenv ?e ''STRIPE_SECRET_KEY'') (name candle) (description candle)
              = Inr ''prod_1''"
    by (simp add: responding_def)
  have h4: "ProductAdmin_save_model ?e empty_world candle False =
              (fst (ProductAdmin_save_model ?e empty_world candle False),
               fst (snd (ProductAdmin_save_model ?e empty_world candle False)),
               snd (snd (ProductAdmin_save_model ?e empty_world candle False)))"
    by simp
  have p: "price candle = Decimal 999 2" "name candle = ''Candle''" "description candle = ''Scented''"
    by (simp_all add: candle_def)
  have t: "trace empty_world = []"
    by (simp add: empty_world_def)
  from price_sent_in_cents [OF h1 h2 h3 h4] show ?thesis
    by (simp add: p t unit_amount_999)
qed

section \<open>Saving a product that is already synced\<close>

lemma save_model_present:
  assumes "stripe_product_id obj \<noteq> []"
  shows "ProductAdmin_save_model e w obj change =
           super_save_model_Product e (w\<lparr>stripe_api_key := getenv e ''STRIPE_SECRET_KEY''\<rparr>) obj change"
  by (simp only: save_model_unfold stripe_sync_present [OF assms] fst_conv snd_conv)

lemma save_model_present_result:
  assumes "stripe_product_id obj \<noteq> []"
    and "ProductAdmin_save_model e w obj change = (w', obj', r)"
  shows "trace w' = trace w @ [ProductSave obj]"
    and "stdout w' = stdout w"
    and "stripe_product_id obj' = stripe_product_id obj"
proof -
  have save: "super_save_model_Product e (w\<lparr>stripe_api_key := getenv e ''STRIPE_SECRET_KEY''\<rparr>) obj change
                = (w', obj', r)"
    using assms(2) by (simp only: save_model_present [OF assms(1)])
  note res = super_save_model_Product_result [OF save]
  from res(2) show "trace w' = trace w @ [ProductSave obj]" by simp
  from res(1) show "stdout w' = stdout w" by simp
  show "stripe_product_id obj' = stripe_product_id obj"
    by (subst res(4)) simp
qed

lemma construct_instance_identifier [simp]:
  "stripe_product_id (construct_instance f obj) = stripe_product_id obj"
  by (simp add: construct_instance_def)

lemma edit_all_present:
  assumes "stripe_product_id obj \<noteq> []"
    and "edit_all steps w obj = (w', obj')"
  shows "filter is_external (trace w') = filter is_external (trace w)
       \<and> stdout w' = stdout w
       \<and> stripe_product_id obj' = stripe_product_id obj"
  using assms
proof (induction steps arbitrary: w obj)
  case Nil
  then show ?case by simp
next
  case (Cons step steps)
  obtain e f where step: "step = (e, f)" by (cases step)
  obtain w1 obj1 r1 where
    save: "ProductAdmin_save_model e w (construct_instance f obj) True = (w1, obj1, r1)"
    by (cases "ProductAdmin_save_model e w (construct_instance f obj) True")
  have present: "stripe_product_id (construct_instance f obj) \<noteq> []"
    using Cons.prems(1) by simp
  note one = save_model_present_result [OF present save]
  have id1: "stripe_product_id obj1 = stripe_product_id obj"
    using one(3) by simp
  have rest: "edit_all steps w1 obj1 = (w', obj')"
    using Cons.prems(2) step save by simp
  have "stripe_product_id obj1 \<noteq> []"
    using id1 Cons.prems(1) by simp
  from Cons.IH [OF this rest] one(1,2) id1 show ?case
    by simp
qed

text \<open>
  Claim C4. Saving a product that already carries an external identifier makes no external
  call and leaves the identifier as it is: the save consists of the persistence step alone
  and prints nothing. The same holds along any run of edits of that record, whatever the
  forms submitted and whatever the services would answer: no call to the payment provider
  or the backend is added and the identifier at the end is the one at the start. A product
  that has been synced is therefore never synced again.
\<close>

theorem sync_is_idempotent:
  assumes "stripe_product_id obj \<noteq> []"
    and "ProductAdmin_save_model e w obj change = (w', obj', r)"
    and "edit_all steps w obj = (w'', obj'')"
  shows "trace w' = trace w @ [ProductSave obj]
       \<and> stdout w' = stdout w
       \<and> stripe_product_id obj' = stripe_product_id obj
       \<and> filter is_external (trace w'') = filter is_external (trace w)
       \<and> stripe_product_id obj'' = stripe_product_id obj"
  using save_model_present_result [OF assms(1,2)] edit_all_present [OF assms(1,3)]
  by simp

theorem sync_is_idempotent_witness:
  "filter is_external (trace (fst (edit_all
       [(responding (Inr ''prod_2'') (Inr ''price_2'') (Inr 201), candle_form),
        (stripe_down, candle_form)]
       empty_world (candle\<lparr>stripe_product_id := ''prod_1''\<rparr>)))) = []
   \<and> stripe_product_id (snd (edit_all
       [(responding (Inr ''prod_2'') (Inr ''price_2'') (Inr 201), candle_form),
        (stripe_down, candle_form)]
       empty_world (candle\<lparr>stripe_product_id := ''prod_1''\<rparr>))) = ''prod_1''
   \<and> trace (fst (ProductAdmin_save_model stripe_down empty_world
        (candle\<lparr>stripe_product_id := ''prod_1''\<rparr>) True)) =
       [ProductSave (candle\<lparr>stripe_product_id := ''prod_1''\<rparr>)]"
proof -
  let ?obj = "candle\<lparr>stripe_product_id := ''prod_1''\<rparr>"
  let ?steps = "[(responding (Inr ''prod_2'') (Inr ''price_2'') (Inr 201), candle_form),
                 (stripe_down, candle_form)]"
  have h1: "stripe_product_id ?obj \<noteq> []"
    by simp
  have h2: "ProductAdmin_save_model stripe_down empty_world ?obj True =
              (fst (ProductAdmin_save_model stripe_down empty_world ?obj True),
               fst (snd (ProductAdmin_save_model stripe_down empty_world ?obj True)),
               snd (snd (ProductAdmin_save_model stripe_down empty_world ?obj True)))"
    by simp
  have h3: "edit_all ?steps empty_world ?obj =
              (fst (edit_all ?steps empty_world ?obj), snd (edit_all ?steps empty_world ?obj))"
    by simp
  have t: "trace empty_world = []"
    by (simp add: empty_world_def)
  from sync_is_idempotent [OF h1 h2 h3] show ?thesis
    by (simp add: t)
qed

section \<open>Saves rejected by the uniqueness constraint\<close>

lemma first_unsynced:
  "ProductAdmin_save_model stripe_down empty_world candle False =
      (\<lparr>stdout = [''Error syncing with Stripe: No API key provided''],
        trace = [StripeProductCreate ''Candle'' ''Scented'', ProductSave candle],
        products = [candle\<lparr>pk := Some 1, created_at := Some 1000, updated_at := Some 1000\<rparr>],
        readers = [], gifts = [], stripe_api_key = None\<rparr>,
       candle\<lparr>pk := Some 1, created_at := Some 1000, updated_at := Some 1000\<rparr>, None)"
  by (simp add: ProductAdmin_save_model_def stripe_sync_def stripe_sync_try_def
      super_save_model_Product_def Product_save_def next_pk_def stripe_down_def responding_def
      empty_world_def candle_def emit_def print_def Let_def)

lemma first_orphaned:
  "ProductAdmin_save_model price_down empty_world candle False =
      (\<lparr>stdout = [''Error syncing with Stripe: timed out''],
        trace = [StripeProductCreate ''Candle'' ''Scented'',
                 StripePriceCreate ''prod_1'' 999 ''usd'', ProductSave candle],
        products = [candle\<lparr>pk := Some 1, created_at := Some 1000, updated_at := Some 1000\<rparr>],
        readers = [], gifts = [], stripe_api_key = None\<rparr>,
       candle\<lparr>pk := Some 1, created_at := Some 1000, updated_at := Some 1000\<rparr>, None)"
  by (simp add: ProductAdmin_save_model_def stripe_sync_def stripe_sync_try_def
      super_save_model_Product_def Product_save_def next_pk_def price_down_def responding_def
      empty_world_def candle_def emit_def print_def Let_def unit_amount_999)

text \<open>
  Claim C3 says that whenever the provider call raises, the failure is logged, the
  identifier stays unset, the other submitted fields are still persisted and nothing is
  raised to the caller. With one product already stored without an identifier, the save of
  a second new product whose provider call raises does print the failure and leaves the
  identifier empty, but the persistence step then rejects the record under the uniqueness
  constraint: \<open>IntegrityError\<close> leaves \<open>save_model\<close> and the table still holds the first
  product only, none of the submitted fields being stored.
\<close>

theorem failed_sync_save_rejected:
  "snd (snd (stripe_sync_try stripe_down
       (fst (ProductAdmin_save_model stripe_down empty_world candle False)) lamp))
     = Some (StripeError ''No API key provided'')
   \<and> stdout (fst (ProductAdmin_save_model stripe_down
        (fst (ProductAdmin_save_model stripe_down empty_world candle False)) lamp False))
     = [''Error syncing with Stripe: No API key provided'',
        ''Error syncing with Stripe: No API key provided'']
   \<and> snd (snd (ProductAdmin_save_model stripe_down
        (fst (ProductAdmin_save_model stripe_down empty_world candle False)) lamp False))
     = Some (IntegrityError ''stripe_product_id'')
   \<and> map name (products (fst (ProductAdmin_save_model stripe_down
        (fst (ProductAdmin_save_model stripe_down empty_world candle False)) lamp False)))
     = [''Candle'']"
  unfolding first_unsynced fst_conv
  by (simp add: ProductAdmin_save_model_def stripe_sync_def stripe_sync_try_def
      super_save_model_Product_def Product_save_def Product_pre_save_def next_pk_def
      stripe_down_def responding_def candle_def lamp_def emit_def print_def Let_def)

text \<open>
  Claim C10 says that when the product creation succeeds and the price creation raises,
  the identifier stays unset and the save still completes. With one product already stored
  without an identifier, such a save asks the provider for both resources and leaves the
  identifier empty, and then does not complete: the persistence step rejects the record
  under the uniqueness constraint, \<open>IntegrityError\<close> leaves \<open>save_model\<close> and the second
  product is not stored.
\<close>

theorem orphan_product_save_rejected:
  "trace (fst (ProductAdmin_save_model price_down
        (fst (ProductAdmin_save_model price_down empty_world candle False)) lamp False))
     = [StripeProductCreate ''Candle'' ''Scented'',
        StripePriceCreate ''prod_1'' 999 ''usd'',
        ProductSave candle,
        StripeProductCreate ''Lamp'' ''Scented'',
        StripePriceCreate ''prod_1'' 999 ''usd'',
        ProductSave lamp]
   \<and> stripe_product_id (fst (snd (ProductAdmin_save_model price_down
        (fst (ProductAdmin_save_model price_down empty_world candle False)) lamp False))) = []
   \<and> snd (snd (ProductAdmin_save_model price_down
        (fst (ProductAdmin_save_model price_down empty_world candle False)) lamp False))
     = Some (IntegrityError ''stripe_product_id'')
   \<and> map name (products (fst (ProductAdmin_save_model price_down
        (fst (ProductAdmin_save_model price_down empty_world candle False)) lamp False)))
     = [''Candle'']"
  unfolding first_orphaned fst_conv
  by (simp add: ProductAdmin_save_model_def stripe_sync_def stripe_sync_try_def
      super_save_model_Product_def Product_save_def Product_pre_save_def next_pk_def
      price_down_def responding_def candle_def lamp_def emit_def print_def Let_def
      unit_amount_999)

text \<open>
  Claim C7 says the identifier is optional and unique once assigned, so that any number of
  products may exist without one. The column is declared unique without being nullable,
  so the empty identifier of an unsynced product is subject to the constraint as well.
  With the payment provider refusing every call, a first new product is stored with the
  empty identifier; saving a second new product then leaves \<open>save_model\<close> with
  \<open>IntegrityError\<close> and the table is unchanged: a second product without an identifier
  cannot be stored. (That an identifier, once set, survives every later save is
  \<open>edit_all_present\<close>.)
\<close>

theorem second_product_without_identifier_rejected:
  "snd (snd (ProductAdmin_save_model stripe_down empty_world candle False)) = None
   \<and> map stripe_product_id (products (fst (ProductAdmin_save_model stripe_down empty_world candle False))) = [[]]
   \<and> snd (snd (ProductAdmin_save_model stripe_down
        (fst (ProductAdmin_save_model stripe_down empty_world candle False)) lamp False))
      = Some (IntegrityError ''stripe_product_id'')
   \<and> products (fst (ProductAdmin_save_model stripe_down
        (fst (ProductAdmin_save_model stripe_down empty_world candle False)) lamp False))
      = products (fst (ProductAdmin_save_model stripe_down empty_world candle False))"
proof -
  have first: "ProductAdmin_save_model stripe_down empty_world candle False =
      (\<lparr>stdout = [''Error syncing with Stripe: No API key provided''],
        trace = [StripeProductCreate ''Candle'' ''Scented'', ProductSave candle],
        products = [candle\<lparr>pk := Some 1, created_at := Some 1000, updated_at := Some 1000\<rparr>],
        readers = [], gifts = [], stripe_api_key = None\<rparr>,
       candle\<lparr>pk := Some 1, created_at := Some 1000, updated_at := Some 1000\<rparr>, None)"
    by (simp add: ProductAdmin_save_model_def stripe_sync_def stripe_sync_try_def
        super_save_model_Product_def Product_save_def next_pk_def stripe_down_def responding_def
        empty_world_def candle_def emit_def print_def Let_def)
  show ?thesis
    unfolding first
    by (simp add: ProductAdmin_save_model_def stripe_sync_def stripe_sync_try_def
        super_save_model_Product_def Product_save_def next_pk_def stripe_down_def responding_def
        candle_def lamp_def emit_def print_def Let_def)
qed

section \<open>Saving a reader profile\<close>

lemma ReaderProfile_save_fields:
  assumes "ReaderProfile_save t tbl obj = Inr (tbl', obj')"
  shows "obj' = obj\<lparr>rp_pk := rp_pk obj', rp_created_at := rp_created_at obj',
                    rp_updated_at := rp_updated_at obj'\<rparr>"
  using assms
  by (auto simp: ReaderProfile_save_def Let_def split: if_splits)

lemma ReaderProfile_save_stored:
  assumes "ReaderProfile_save t tbl obj = Inr (tbl', obj')"
  shows "obj' \<in> set tbl'"
proof (cases "rp_pk obj \<noteq> None \<and> rp_pk obj \<in> set (map rp_pk tbl)")
  case True
  then obtain r where r: "r \<in> set tbl" "rp_pk r = rp_pk obj" by auto
  from assms True have "tbl' = map (\<lambda>r. if rp_pk r = rp_pk obj then obj' else r) tbl"
    by (auto simp: ReaderProfile_save_def Let_def split: if_splits)
  with r show ?thesis by force
next
  case False
  with assms show ?thesis
    by (auto simp: ReaderProfile_save_def Let_def split: if_splits)
qed

lemma ReaderProfile_pre_save_fields:
  "ReaderProfile_pre_save t tbl obj =
     obj\<lparr>rp_pk := rp_pk (ReaderProfile_pre_save t tbl obj),
         rp_created_at := rp_created_at (ReaderProfile_pre_save t tbl obj),
         rp_updated_at := rp_updated_at (ReaderProfile_pre_save t tbl obj)\<rparr>"
  by (simp add: ReaderProfile_pre_save_def)

lemma super_save_model_ReaderProfile_result:
  assumes "super_save_model_ReaderProfile e w obj change = (w', obj', r)"
  shows "stdout w' = stdout w"
    and "trace w' = trace w @ [ReaderSave obj]"
    and "r = None \<Longrightarrow> obj' \<in> set (readers w')"
    and "obj' = obj\<lparr>rp_pk := rp_pk obj', rp_created_at := rp_created_at obj',
                    rp_updated_at := rp_updated_at obj'\<rparr>"
    and "r \<noteq> None \<Longrightarrow> readers w' = readers w"
  using assms ReaderProfile_save_fields [of "now e" "readers w" obj]
    ReaderProfile_save_stored [of "now e" "readers w" obj]
    ReaderProfile_pre_save_fields [of "now e" "readers w" obj]
  by (auto simp: super_save_model_ReaderProfile_def Let_def split: sum.splits prod.splits)

lemma reader_json_saved:
  assumes "obj' = obj\<lparr>rp_pk := k, rp_created_at := c, rp_updated_at := u\<rparr>"
  shows "reader_json obj' = reader_json obj"
  by (simp add: assms reader_json_def)

lemma backend_sync_result:
  "stdout (backend_sync e w obj True) = stdout w"
  "trace (backend_sync e w obj True) = trace w"
  "readers (backend_sync e w obj change) = readers w"
  "trace (backend_sync e w obj False) =
     trace w @ [RequestsPost (backend_url e @ ''/api/admin/readers'') (reader_json obj)]"
  by (auto simp: backend_sync_def backend_sync_try_def Let_def split: sum.splits)

lemma save_model_reader_cases:
  assumes "ReaderProfileAdmin_save_model e w obj change = (w', obj', r)"
  obtains (raised) x w1 where "super_save_model_ReaderProfile e w obj change = (w1, obj', Some x)"
      "w' = w1" "r = Some x"
    | (saved) w1 where "super_save_model_ReaderProfile e w obj change = (w1, obj', None)"
      "w' = backend_sync e w1 obj' change" "r = None"
  using assms
  by (auto simp: ReaderProfileAdmin_save_model_def split: prod.splits option.splits)

text \<open>
  Claim C2. The provisioning request is sent exactly once on the creation path
  (\<open>change = False\<close>), immediately after the new profile has been persisted, and never on
  the edit path (\<open>change = True\<close>). On creation the save performs the persistence step and
  then one POST to the reader endpoint of the backend whose body carries the
  external-account identifier, email, display name, biography, specialties and the three
  rates coerced to floats. On an edit, and when the persistence step raises, the
  persistence step is the only event of the save.
\<close>

theorem provisioning_once_on_creation:
  assumes "ReaderProfileAdmin_save_model e w obj change = (w', obj', r)"
  shows "(change \<longrightarrow> trace w' = trace w @ [ReaderSave obj])
       \<and> (\<not> change \<and> r = None \<longrightarrow>
            obj' \<in> set (readers w') \<and>
            trace w' = trace w @
              [ReaderSave obj,
               RequestsPost (backend_url e @ ''/api/admin/readers'')
                 (JDict
                   [(''clerk_id'', JStr (clerk_id obj)),
                    (''email'', JStr (email obj)),
                    (''display_name'', JStr (display_name obj)),
                    (''bio'', JStr (bio obj)),
                    (''specialties'', specialties obj),
                    (''chat_rate'', JFloat (Float_of (chat_rate obj))),
                    (''call_rate'', JFloat (Float_of (call_rate obj))),
                    (''video_rate'', JFloat (Float_of (video_rate obj)))])])
       \<and> (r \<noteq> None \<longrightarrow> trace w' = trace w @ [ReaderSave obj])"
  using assms
proof (cases rule: save_model_reader_cases)
  case (raised x w1)
  from super_save_model_ReaderProfile_result(2) [OF raised(1)] raised(2,3)
  show ?thesis by simp
next
  case (saved w1)
  note res = super_save_model_ReaderProfile_result [OF saved(1)]
  have j: "reader_json obj' = reader_json obj"
    using res(4) by (intro reader_json_saved) simp
  have stored: "obj' \<in> set (readers w')"
    using res(3) saved(2) by (simp add: backend_sync_result)
  show ?thesis
  proof (cases change)
    case True
    with res(2) saved(2,3) show ?thesis
      by (simp add: backend_sync_result)
  next
    case False
    have "trace w' = trace w @ [ReaderSave obj,
             RequestsPost (backend_url e @ ''/api/admin/readers'') (reader_json obj)]"
      using False res(2) saved(2) j by (simp add: backend_sync_result)
    with False saved(3) stored show ?thesis
      by (simp add: reader_json_def)
  qed
qed

theorem provisioning_once_on_creation_witness:
  "trace (fst (ReaderProfileAdmin_save_model
       (responding (Inr ''prod_1'') (Inr ''price_1'') (Inr 201)) empty_world luna False)) =
     [ReaderSave luna,
      RequestsPost ''http://localhost:5000/api/admin/readers''
        (JDict
          [(''clerk_id'', JStr ''user_1''),
           (''email'', JStr ''luna@example.com''),
           (''display_name'', JStr ''Luna''),
           (''bio'', JStr []),
           (''specialties'', JList [JStr ''tarot'']),
           (''chat_rate'', JFloat (Float_of (Decimal 299 2))),
           (''call_rate'', JFloat (Float_of (Decimal 399 2))),
           (''video_rate'', JFloat (Float_of (Decimal 499 2)))])]
   \<and> trace (fst (ReaderProfileAdmin_save_model
       (responding (Inr ''prod_1'') (Inr ''price_1'') (Inr 201)) empty_world luna True)) =
     [ReaderSave luna]"
proof -
  let ?e = "responding (Inr ''prod_1'') (Inr ''price_1'') (Inr 201)"
  have h: "ReaderProfileAdmin_save_model ?e empty_world luna change =
              (fst (ReaderProfileAdmin_save_model ?e empty_world luna change),
               fst (snd (ReaderProfileAdmin_save_model ?e empty_world luna change)),
               snd (snd (ReaderProfileAdmin_save_model ?e empty_world luna change)))" for change
    by simp
  have ok: "snd (snd (ReaderProfileAdmin_save_model ?e empty_world luna False)) = None"
    by (simp add: ReaderProfileAdmin_save_model_def super_save_model_ReaderProfile_def
        ReaderProfile_save_def empty_world_def emit_def Let_def)
  have f: "clerk_id luna = ''user_1''" "email luna = ''luna@example.com''"
    "display_name luna = ''Luna''" "bio luna = []" "specialties luna = JList [JStr ''tarot'']"
    "chat_rate luna = Decimal 299 2" "call_rate luna = Decimal 399 2"
    "video_rate luna = Decimal 499 2"
    by (simp_all add: luna_def)
  have u: "backend_url ?e = ''http://localhost:5000''"
    by (simp add: backend_url_def responding_def)
  have t: "trace empty_world = []"
    by (simp add: empty_world_def)
  from provisioning_once_on_creation [OF h [of False]] provisioning_once_on_creation [OF h [of True]] ok
  show ?thesis
    by (simp add: f u t)
qed

lemma backend_exception_logged:
  assumes "super_save_model_ReaderProfile e w obj False = (w1, obj1, None)"
    and "requests_post e (backend_url e @ ''/api/admin/readers'') (reader_json obj1) = Inl x"
  shows "ReaderProfileAdmin_save_model e w obj False =
           (print (''Error syncing reader with backend: '' @ str_exn x)
              (emit (RequestsPost (backend_url e @ ''/api/admin/readers'') (reader_json obj1)) w1),
            obj1, None)"
  using assms
  by (simp add: ReaderProfileAdmin_save_model_def backend_sync_def backend_sync_try_def Let_def)

lemma backend_status_not_logged:
  assumes "super_save_model_ReaderProfile e w obj False = (w1, obj1, None)"
    and "requests_post e (backend_url e @ ''/api/admin/readers'') (reader_json obj1) = Inr code"
    and "code \<noteq> 201"
  shows "ReaderProfileAdmin_save_model e w obj False =
           (emit (RequestsPost (backend_url e @ ''/api/admin/readers'') (reader_json obj1)) w1,
            obj1, None)"
  using assms
  by (simp add: ReaderProfileAdmin_save_model_def backend_sync_def backend_sync_try_def Let_def)

text \<open>
  Claim C6 says every failure of the provisioning call is logged, a response other than
  201 included. The method prints on status 201 and in the exception handler and has no
  branch for any other status. A new profile saved while the backend answers 500 is
  stored and no exception leaves the save, yet nothing at all is printed; the same save
  against a backend that refuses the connection prints the error line.
\<close>

theorem backend_error_status_not_logged:
  "stdout (fst (ReaderProfileAdmin_save_model
       (responding (Inr ''prod_1'') (Inr ''price_1'') (Inr 500)) empty_world luna False)) = []
   \<and> snd (snd (ReaderProfileAdmin_save_model
       (responding (Inr ''prod_1'') (Inr ''price_1'') (Inr 500)) empty_world luna False)) = None
   \<and> map clerk_id (readers (fst (ReaderProfileAdmin_save_model
       (responding (Inr ''prod_1'') (Inr ''price_1'') (Inr 500)) empty_world luna False))) = [''user_1'']
   \<and> stdout (fst (ReaderProfileAdmin_save_model
       (responding (Inr ''prod_1'') (Inr ''price_1'') (Inl (ConnectionError ''refused''))) empty_world luna False))
      = [''Error syncing reader with backend: refused'']"
  by (simp add: ReaderProfileAdmin_save_model_def super_save_model_ReaderProfile_def
      ReaderProfile_save_def backend_sync_def backend_sync_try_def backend_url_def
      responding_def empty_world_def luna_def emit_def print_def next_pk_def Let_def)

section \<open>The uniqueness constraint on product identifiers\<close>

text \<open>
  Every accepted save keeps the primary keys and the identifiers of the table pairwise
  distinct, the empty identifier included.
\<close>

lemma row_replaced_untouched:
  assumes "\<forall>q \<in> set rs. pk q \<noteq> k"
  shows "map (\<lambda>r. if pk r = k then obj' else r) rs = rs"
  using assms by (induction rs) simp_all

lemma row_replaced_identifiers:
  "set (map stripe_product_id (map (\<lambda>r. if pk r = k then obj' else r) rs))
     \<subseteq> insert (stripe_product_id obj') (stripe_product_id ` set rs)"
  by (induction rs) auto

lemma row_replaced_distinct:
  assumes "distinct (map pk tbl)" and "distinct (map stripe_product_id tbl)"
    and "\<forall>r \<in> set tbl. pk r \<noteq> k \<longrightarrow> stripe_product_id r \<noteq> stripe_product_id obj'"
  shows "distinct (map stripe_product_id (map (\<lambda>r. if pk r = k then obj' else r) tbl))"
  using assms
proof (induction tbl)
  case Nil
  then show ?case by simp
next
  case (Cons r rs)
  from Cons.prems have ih: "distinct (map stripe_product_id (map (\<lambda>r. if pk r = k then obj' else r) rs))"
    by (intro Cons.IH) simp_all
  show ?case
  proof (cases "pk r = k")
    case True
    from Cons.prems(1) have "pk r \<notin> pk ` set rs" by simp
    with True have others: "\<forall>q \<in> set rs. pk q \<noteq> k" by blast
    with Cons.prems(3) have "stripe_product_id obj' \<notin> stripe_product_id ` set rs"
      by force
    moreover from Cons.prems(2) have "distinct (map stripe_product_id rs)" by simp
    ultimately show ?thesis
      using True by (simp add: row_replaced_untouched [OF others])
  next
    case False
    with Cons.prems(3) have "stripe_product_id r \<noteq> stripe_product_id obj'"
      by simp
    moreover from Cons.prems(2) have "stripe_product_id r \<notin> stripe_product_id ` set rs"
      by simp
    ultimately have "stripe_product_id r \<notin>
        set (map stripe_product_id (map (\<lambda>r. if pk r = k then obj' else r) rs))"
      using row_replaced_identifiers [of k obj' rs] by blast
    with False ih show ?thesis by simp
  qed
qed

lemma fold_max_ge_init: "(a::nat) \<le> fold max xs a"
proof (induction xs arbitrary: a)
  case Nil
  show ?case by simp
next
  case (Cons y ys)
  have "a \<le> max y a" by simp
  also have "\<dots> \<le> fold max ys (max y a)" by (rule Cons.IH)
  finally show ?case by simp
qed

lemma fold_max_ge_elem: "x \<in> set xs \<Longrightarrow> (x::nat) \<le> fold max xs a"
proof (induction xs arbitrary: a)
  case Nil
  then show ?case by simp
next
  case (Cons y ys)
  show ?case
  proof (cases "x = y")
    case True
    have "x \<le> max y a" using True by simp
    also have "\<dots> \<le> fold max ys (max y a)" by (rule fold_max_ge_init)
    finally show ?thesis by simp
  next
    case False
    with Cons.prems have "x \<in> set ys" by simp
    then have "x \<le> fold max ys (max y a)" by (rule Cons.IH)
    then show ?thesis by simp
  qed
qed

lemma next_pk_fresh: "Some (next_pk ks) \<notin> set ks"
proof
  assume "Some (next_pk ks) \<in> set ks"
  then have "(case Some (next_pk ks) of None \<Rightarrow> 0 | Some n \<Rightarrow> n)
               \<in> set (map (\<lambda>k. case k of None \<Rightarrow> 0 | Some n \<Rightarrow> n) ks)"
    by (simp only: set_map) (rule imageI)
  then have "next_pk ks \<le> fold max (map (\<lambda>k. case k of None \<Rightarrow> 0 | Some n \<Rightarrow> n) ks) 0"
    using fold_max_ge_elem by simp
  then show False
    by (simp add: next_pk_def)
qed

lemma Product_save_unfold:
  "Product_save t tbl obj =
     (if stripe_product_id obj \<in>
           set (map stripe_product_id (filter (\<lambda>r. pk r \<noteq> pk obj \<or> pk obj = None) tbl))
      then Inl (IntegrityError ''stripe_product_id'')
      else if pk obj \<noteq> None \<and> pk obj \<in> set (map pk tbl)
      then Inr (map (\<lambda>r. if pk r = pk obj then obj\<lparr>updated_at := Some t\<rparr> else r) tbl,
                obj\<lparr>updated_at := Some t\<rparr>)
      else Inr (tbl @ [obj\<lparr>pk := Some (case pk obj of None \<Rightarrow> next_pk (map pk tbl) | Some n \<Rightarrow> n),
                          created_at := Some t, updated_at := Some t\<rparr>],
                obj\<lparr>pk := Some (case pk obj of None \<Rightarrow> next_pk (map pk tbl) | Some n \<Rightarrow> n),
                    created_at := Some t, updated_at := Some t\<rparr>))"
  by (simp only: Product_save_def Let_def)

lemma Product_save_accepts:
  assumes "Product_save t tbl obj = Inr (tbl', obj')"
  shows "stripe_product_id obj \<notin>
           set (map stripe_product_id (filter (\<lambda>r. pk r \<noteq> pk obj \<or> pk obj = None) tbl))"
proof
  assume "stripe_product_id obj \<in>
           set (map stripe_product_id (filter (\<lambda>r. pk r \<noteq> pk obj \<or> pk obj = None) tbl))"
  then have "Product_save t tbl obj =
      Inl (IntegrityError ''stripe_product_id'')"
    by (simp only: Product_save_unfold if_True)
  with assms show False by simp
qed

lemma Product_save_update:
  assumes "Product_save t tbl obj = Inr (tbl', obj')"
    and "pk obj \<noteq> None \<and> pk obj \<in> set (map pk tbl)"
  shows "tbl' = map (\<lambda>r. if pk r = pk obj then obj' else r) tbl"
    and "stripe_product_id obj' = stripe_product_id obj"
    and "\<forall>r \<in> set tbl. pk r \<noteq> pk obj \<longrightarrow> stripe_product_id r \<noteq> stripe_product_id obj"
    and "pk obj' = pk obj"
proof -
  note ok = Product_save_accepts [OF assms(1)]
  have "Product_save t tbl obj =
      Inr (map (\<lambda>r. if pk r = pk obj then obj\<lparr>updated_at := Some t\<rparr> else r) tbl,
           obj\<lparr>updated_at := Some t\<rparr>)"
    by (subst Product_save_unfold, subst if_not_P [OF ok], subst if_P [OF assms(2)], rule refl)
  then have "Inr (tbl', obj') =
      (Inr (map (\<lambda>r. if pk r = pk obj then obj\<lparr>updated_at := Some t\<rparr> else r) tbl,
           obj\<lparr>updated_at := Some t\<rparr>) :: exn + product list \<times> product)"
    by (simp only: assms(1))
  then have res: "tbl' = map (\<lambda>r. if pk r = pk obj then obj\<lparr>updated_at := Some t\<rparr> else r) tbl"
    "obj' = obj\<lparr>updated_at := Some t\<rparr>"
    by simp_all
  show "tbl' = map (\<lambda>r. if pk r = pk obj then obj' else r) tbl" by (simp only: res)
  show "stripe_product_id obj' = stripe_product_id obj" by (simp add: res(2))
  show "pk obj' = pk obj" by (simp add: res(2))
  show "\<forall>r \<in> set tbl. pk r \<noteq> pk obj \<longrightarrow> stripe_product_id r \<noteq> stripe_product_id obj"
  proof (intro ballI impI)
    fix r assume "r \<in> set tbl" "pk r \<noteq> pk obj"
    then have "r \<in> set (filter (\<lambda>r. pk r \<noteq> pk obj \<or> pk obj = None) tbl)"
      by simp
    then have "stripe_product_id r \<in>
        set (map stripe_product_id (filter (\<lambda>r. pk r \<noteq> pk obj \<or> pk obj = None) tbl))"
      by (simp only: set_map) (rule imageI)
    with ok show "stripe_product_id r \<noteq> stripe_product_id obj"
      by metis
  qed
qed

lemma Product_save_insert:
  assumes "Product_save t tbl obj = Inr (tbl', obj')"
    and "\<not> (pk obj \<noteq> None \<and> pk obj \<in> set (map pk tbl))"
  shows "tbl' = tbl @ [obj']"
    and "stripe_product_id obj' = stripe_product_id obj"
    and "stripe_product_id obj \<notin> set (map stripe_product_id tbl)"
    and "pk obj' \<notin> set (map pk tbl)"
proof -
  note ok = Product_save_accepts [OF assms(1)]
  from assms(2) have "\<forall>r \<in> set tbl. pk r \<noteq> pk obj \<or> pk obj = None"
    by force
  then have others: "filter (\<lambda>r. pk r \<noteq> pk obj \<or> pk obj = None) tbl = tbl"
    by (simp only: filter_id_conv)
  let ?new = "obj\<lparr>pk := Some (case pk obj of None \<Rightarrow> next_pk (map pk tbl) | Some n \<Rightarrow> n),
                   created_at := Some t, updated_at := Some t\<rparr>"
  have "Product_save t tbl obj = Inr (tbl @ [?new], ?new)"
    by (subst Product_save_unfold, subst if_not_P [OF ok], subst if_not_P [OF assms(2)], rule refl)
  then have "Inr (tbl', obj') = (Inr (tbl @ [?new], ?new) :: exn + product list \<times> product)"
    by (simp only: assms(1))
  then have res: "tbl' = tbl @ [?new]" "obj' = ?new"
    by simp_all
  show "tbl' = tbl @ [obj']" by (simp only: res)
  show "stripe_product_id obj' = stripe_product_id obj" by (simp add: res(2))
  from ok show "stripe_product_id obj \<notin> set (map stripe_product_id tbl)"
    unfolding others by assumption
  show "pk obj' \<notin> set (map pk tbl)"
  proof (cases "pk obj")
    case None
    then show ?thesis
      using next_pk_fresh [of "map pk tbl"] by (simp add: res(2))
  next
    case (Some n)
    with assms(2) show ?thesis
      by (simp add: res(2))
  qed
qed

lemma Product_save_keeps_unique:
  assumes "Product_save t tbl obj = Inr (tbl', obj')"
    and "distinct (map pk tbl)" and "distinct (map stripe_product_id tbl)"
  shows "distinct (map stripe_product_id tbl')"
proof (cases "pk obj \<noteq> None \<and> pk obj \<in> set (map pk tbl)")
  case True
  note u = Product_save_update [OF assms(1) True]
  show ?thesis
    unfolding u(1) using assms(2,3) u(3)
    by (intro row_replaced_distinct) (simp_all add: u(2))
next
  case False
  note i = Product_save_insert [OF assms(1) False]
  from assms(3) i(3) show ?thesis
    by (simp add: i(1,2))
qed

lemma Product_save_keeps_pks:
  assumes "Product_save t tbl obj = Inr (tbl', obj')"
    and "distinct (map pk tbl)"
  shows "distinct (map pk tbl')"
proof (cases "pk obj \<noteq> None \<and> pk obj \<in> set (map pk tbl)")
  case True
  note u = Product_save_update [OF assms(1) True]
  have "map pk tbl' = map pk tbl"
    unfolding u(1) by (induction tbl) (simp_all add: u(4))
  with assms(2) show ?thesis by simp
next
  case False
  note i = Product_save_insert [OF assms(1) False]
  from assms(2) i(4) show ?thesis
    by (simp add: i(1))
qed

section \<open>Listings\<close>

lemma timestamp_key_reflects: "timestamp_key a \<le> timestamp_key b \<Longrightarrow> a \<le> b"
  by (cases a; cases b) (simp_all add: timestamp_key_def)

lemma sorted_descending:
  "sorted (rev (map key (sort_rows key True rows)))"
  by (simp add: sort_rows_def rev_map [symmetric])

lemma sorted_ascending:
  "sorted (map key (sort_rows key False rows))"
  by (simp add: sort_rows_def)

lemma mset_sort_rows: "mset (sort_rows key d rows) = mset rows"
  by (simp add: sort_rows_def)

lemma sorted_map_reflect:
  assumes "sorted (map (\<lambda>x. g (f x)) xs)" and "\<And>a b. g a \<le> g b \<Longrightarrow> a \<le> b"
  shows "sorted (map f xs)"
  using assms(1) by (induction xs) (auto intro: assms(2))

lemma ReaderProfile_listing_eq:
  "ReaderProfile_listing w = Inr (sort_rows (\<lambda>r. timestamp_key (rp_created_at r)) True (readers w))"
  by (simp add: ReaderProfile_listing_def ReaderProfile_ordering_def ReaderProfile_columns_def)

lemma Product_listing_eq:
  "Product_listing w = Inr (sort_rows (\<lambda>r. timestamp_key (created_at r)) True (products w))"
  by (simp add: Product_listing_def Product_ordering_def Product_columns_def)

lemma VirtualGift_listing_eq:
  "VirtualGift_listing w = Inr (sort_rows (\<lambda>r. Some (dec_value (gift_price r))) False (gifts w))"
  by (simp add: VirtualGift_listing_def VirtualGift_ordering_def VirtualGift_columns_def)

lemma newest_first:
  "sorted (rev (map f (sort_rows (\<lambda>r. timestamp_key (f r)) True rows)))"
proof -
  have "sorted (map (\<lambda>r. timestamp_key (f r)) (rev (sort_rows (\<lambda>r. timestamp_key (f r)) True rows)))"
    using sorted_descending [of "\<lambda>r. timestamp_key (f r)" rows] by (simp only: rev_map)
  then have "sorted (map f (rev (sort_rows (\<lambda>r. timestamp_key (f r)) True rows)))"
    by (rule sorted_map_reflect) (rule timestamp_key_reflects)
  then show ?thesis by (simp only: rev_map)
qed

lemma cheapest_first:
  "sorted (map f (sort_rows (\<lambda>r. Some (f r :: rat)) False rows))"
  by (rule sorted_map_reflect [where g = Some]) (rule sorted_ascending, simp)

text \<open>
  Claim C8. Every listing returns the rows of its table, each exactly once, in the order
  the class declares: reader profiles and products newest first by creation time, virtual
  gifts cheapest first by price.
\<close>

theorem listings_follow_meta_ordering:
  "\<exists>rs ps gs.
     ReaderProfile_listing w = Inr rs \<and> mset rs = mset (readers w)
       \<and> sorted (rev (map rp_created_at rs))
     \<and> Product_listing w = Inr ps \<and> mset ps = mset (products w)
       \<and> sorted (rev (map created_at ps))
     \<and> VirtualGift_listing w = Inr gs \<and> mset gs = mset (gifts w)
       \<and> sorted (map (\<lambda>g. dec_value (gift_price g)) gs)"
proof -
  let ?rs = "sort_rows (\<lambda>r. timestamp_key (rp_created_at r)) True (readers w)"
  let ?ps = "sort_rows (\<lambda>r. timestamp_key (created_at r)) True (products w)"
  let ?gs = "sort_rows (\<lambda>r. Some (dec_value (gift_price r))) False (gifts w)"
  have r: "ReaderProfile_listing w = Inr ?rs \<and> mset ?rs = mset (readers w)
             \<and> sorted (rev (map rp_created_at ?rs))"
    by (intro conjI ReaderProfile_listing_eq mset_sort_rows newest_first)
  have p: "Product_listing w = Inr ?ps \<and> mset ?ps = mset (products w)
             \<and> sorted (rev (map created_at ?ps))"
    by (intro conjI Product_listing_eq mset_sort_rows newest_first)
  have g: "VirtualGift_listing w = Inr ?gs \<and> mset ?gs = mset (gifts w)
             \<and> sorted (map (\<lambda>g. dec_value (gift_price g)) ?gs)"
    by (intro conjI VirtualGift_listing_eq mset_sort_rows cheapest_first)
  from r p g show ?thesis
    by blast
qed

end
